theory Spec2Isabelle
  imports Main
begin

section \<open>JavaScript primitives used by the route handlers\<close>

text \<open>
  Strings are byte lists. The white space of \<^verbatim>\<open>String.prototype.trim\<close> and of
  \<^verbatim>\<open>parseInt\<close> is modelled on its ASCII part (space, tab, line feed, vertical tab,
  form feed, carriage return); the Unicode space characters are outside the model.
\<close>

definition isWhiteSpace :: "char \<Rightarrow> bool" where
  "isWhiteSpace c = (c \<in> set [CHR '' '', CHR 0x09, CHR 0x0A, CHR 0x0B, CHR 0x0C, CHR 0x0D])"

definition trimStart :: "string \<Rightarrow> string" where
  "trimStart s = dropWhile isWhiteSpace s"

definition trim :: "string \<Rightarrow> string" where
  "trim s = rev (dropWhile isWhiteSpace (rev (dropWhile isWhiteSpace s)))"

text \<open>
  \<^verbatim>\<open>s.split(",")\<close>: the pieces between the commas, in order. The result is never
  empty: the empty string splits into one empty piece.
\<close>

fun split_comma :: "string \<Rightarrow> string list" where
  "split_comma [] = [[]]"
| "split_comma (c # cs) =
     (if c = CHR '','' then [] # split_comma cs
      else (case split_comma cs of
              [] \<Rightarrow> [[c]]
            | w # ws \<Rightarrow> (c # w) # ws))"

text \<open>
  \<^verbatim>\<open>parseInt(string)\<close> with no radix, after ECMAScript: leading white space is
  skipped, a sign is read, a prefix \<^verbatim>\<open>0x\<close> selects radix 16, and the longest run of
  digits of the radix is the number; no digit gives \<^verbatim>\<open>NaN\<close>, here \<open>None\<close>. The
  number is a mathematical integer (the rounding of doubles beyond \<open>2^53\<close> is outside
  the model).
\<close>

definition digitValue :: "char \<Rightarrow> nat option" where
  "digitValue c =
     (let n = (of_char c :: nat) in
      if 48 \<le> n \<and> n \<le> 57 then Some (n - 48)
      else if 97 \<le> n \<and> n \<le> 122 then Some (n - 87)
      else if 65 \<le> n \<and> n \<le> 90 then Some (n - 55)
      else None)"

fun parseDigits :: "nat \<Rightarrow> string \<Rightarrow> nat option \<Rightarrow> nat option" where
  "parseDigits R [] acc = acc"
| "parseDigits R (c # cs) acc =
     (case digitValue c of
        None \<Rightarrow> acc
      | Some d \<Rightarrow>
          if d < R
          then parseDigits R cs (Some ((case acc of None \<Rightarrow> 0 | Some a \<Rightarrow> a * R) + d))
          else acc)"

definition parseInt :: "string \<Rightarrow> int option" where
  "parseInt inputString =
     (let S = trimStart inputString;
          sign = (if take 1 S = ''-'' then - 1 else 1);
          S = (if take 1 S = ''+'' \<or> take 1 S = ''-'' then drop 1 S else S);
          hex = (take 2 S = ''0x'' \<or> take 2 S = ''0X'');
          R = (if hex then 16 else 10);
          S = (if hex then drop 2 S else S)
      in map_option (\<lambda>n. sign * int n) (parseDigits R S None))"

text \<open>
  A value that may be \<^verbatim>\<open>undefined\<close> (an environment variable, a query parameter)
  is a \<open>string option\<close>; \<^verbatim>\<open>ToString(undefined)\<close> is the string "undefined".
\<close>

definition ToString :: "string option \<Rightarrow> string" where
  "ToString v = (case v of None \<Rightarrow> ''undefined'' | Some s \<Rightarrow> s)"

text \<open>\<^verbatim>\<open>n || d\<close> on a number: \<^verbatim>\<open>NaN\<close> and \<open>0\<close> are falsy.\<close>

definition or_default :: "int option \<Rightarrow> int \<Rightarrow> int" where
  "or_default n d = (case n of None \<Rightarrow> d | Some v \<Rightarrow> if v = 0 then d else v)"

section \<open>Caching configuration (config/cache)\<close>

text \<open>
  \<^verbatim>\<open>const CACHE_ENABLED = process.env.CACHE_ENABLED !== "false";\<close>
  \<^verbatim>\<open>const CACHE_TTL = parseInt(process.env.CACHE_TTL) || 300;\<close>
  Both are functions of the environment variable they read once at start-up.
\<close>

definition CACHE_ENABLED :: "string option \<Rightarrow> bool" where
  "CACHE_ENABLED env = (env \<noteq> Some ''false'')"

definition CACHE_TTL :: "string option \<Rightarrow> int" where
  "CACHE_TTL env = or_default (parseInt (ToString env)) 300"

subsection \<open>The cache store\<close>

text \<open>
  Modelled from the spec: the store behind \<^verbatim>\<open>new NodeCache({ stdTTL: CACHE_TTL })\<close>
  is the node-cache package, whose code is not among the sources. Section 4.1 of the
  specification gives its contract: an entry is a value with an expiry time,
  \<^verbatim>\<open>get\<close> returns the stored value if present and not expired (an entry is absent
  once \<open>now \<ge> expiresAt\<close>), \<^verbatim>\<open>set\<close> stores the value with expiry
  \<open>now + ttlSeconds\<close> and overwrites unconditionally, and the TTL of a \<^verbatim>\<open>set\<close> with
  no TTL argument is the store's default. The clock is a parameter, in seconds.
\<close>

record 'a cache_store =
  entries :: "string \<rightharpoonup> ('a \<times> int)"
  stdTTL :: int

definition NodeCache :: "int \<Rightarrow> 'a cache_store" where
  "NodeCache ttl = \<lparr>entries = Map.empty, stdTTL = ttl\<rparr>"

definition cache_get :: "'a cache_store \<Rightarrow> int \<Rightarrow> string \<Rightarrow> 'a option" where
  "cache_get c now k =
     (case entries c k of
        None \<Rightarrow> None
      | Some (v, expiresAt) \<Rightarrow> if now \<ge> expiresAt then None else Some v)"

definition cache_set_ttl :: "'a cache_store \<Rightarrow> int \<Rightarrow> string \<Rightarrow> 'a \<Rightarrow> int \<Rightarrow> 'a cache_store" where
  "cache_set_ttl c now k v ttlSeconds = c\<lparr>entries := (entries c)(k \<mapsto> (v, now + ttlSeconds))\<rparr>"

definition cache_set :: "'a cache_store \<Rightarrow> int \<Rightarrow> string \<Rightarrow> 'a \<Rightarrow> 'a cache_store" where
  "cache_set c now k v = cache_set_ttl c now k v (stdTTL c)"

text \<open>The process-wide instance: \<^verbatim>\<open>const cache = new NodeCache({ stdTTL: CACHE_TTL })\<close>.\<close>

definition cache :: "string option \<Rightarrow> 'a cache_store" where
  "cache env = NodeCache (CACHE_TTL env)"

section \<open>Promises and the all-settled join\<close>

text \<open>
  A provider call returns a promise. It settles at most once, fulfilled with a value or
  rejected with a reason whose \<^verbatim>\<open>message\<close> is a string (the provider contract of
  section 6 of the specification), or it never settles (\<open>None\<close>).
\<close>

datatype 'v settled = Fulfilled 'v | Rejected string

type_synonym 'v promise = "'v settled option"

text \<open>
  \<^verbatim>\<open>Promise.allSettled(promises)\<close>, after ECMAScript: a list \<open>values\<close> with one slot
  per promise, all empty at first. When the promise at index \<open>i\<close> settles, its result
  is written to slot \<open>i\<close>; the join resumes with the list once no slot is empty.
  The completion order is the list of indices in the order in which the promises
  settle; an index out of range or of a promise that never settles writes nothing.
  \<open>None\<close>: the join never resumes.
\<close>

fun settle :: "'v promise list \<Rightarrow> nat list \<Rightarrow> 'v settled option list \<Rightarrow> 'v settled option list" where
  "settle ps [] values = values"
| "settle ps (i # order) values =
     settle ps order
       (if i < length ps
        then (case ps ! i of None \<Rightarrow> values | Some r \<Rightarrow> values[i := Some r])
        else values)"

definition allSettled :: "'v promise list \<Rightarrow> nat list \<Rightarrow> 'v settled list option" where
  "allSettled ps order = those (settle ps order (replicate (length ps) None))"

section \<open>What a handler does\<close>

text \<open>
  A handler run is a function of the configuration flag, the cache store, the clock
  readings and the behaviour of the provider. It returns the response (\<open>None\<close> when
  the handler never responds), the store it leaves and the trace of its accesses to
  the store and of its provider calls, in program order. The calls to \<^verbatim>\<open>log\<close> and
  the counters that only feed them are left out.
\<close>

datatype event = CacheGet string | CacheSet string | ProviderCall string

datatype 'd response = Json 'd | ErrorStatus nat string

record 'd run =
  response :: "'d response option"
  store :: "'d cache_store"
  trace :: "event list"

section \<open>GET /quote/:symbols\<close>

text \<open>
  The aggregate is a plain object keyed by symbol: \<^verbatim>\<open>data[symbol] = result.value\<close> or
  \<^verbatim>\<open>data[symbol] = { error: result.reason.message }\<close>. An assignment to the key
  \<^verbatim>\<open>__proto__\<close> of an object literal sets its prototype and creates no property.
\<close>

datatype 'v quote_slot = Value 'v | Error string

type_synonym 'v quote_data = "string \<rightharpoonup> 'v quote_slot"

definition obj_set :: "(string \<rightharpoonup> 'a) \<Rightarrow> string \<Rightarrow> 'a \<Rightarrow> (string \<rightharpoonup> 'a)" where
  "obj_set data k v = (if k = ''__proto__'' then data else data(k \<mapsto> v))"

text \<open>
  The body of \<^verbatim>\<open>results.forEach((result, index) => ...)\<close>: the value assigned to
  \<^verbatim>\<open>data[symbol]\<close> on either branch, and the loop over the results paired with
  \<^verbatim>\<open>symbolList[index]\<close>.
\<close>

fun quote_entry :: "'v settled \<Rightarrow> 'v quote_slot" where
  "quote_entry (Fulfilled v) = Value v"
| "quote_entry (Rejected message) = Error message"

fun quote_forEach :: "(string \<times> 'v settled) list \<Rightarrow> 'v quote_data \<Rightarrow> 'v quote_data" where
  "quote_forEach [] data = data"
| "quote_forEach ((symbol, result) # rest) data =
     quote_forEach rest (obj_set data symbol (quote_entry result))"

definition quote_cacheKey :: "string \<Rightarrow> string" where
  "quote_cacheKey symbols = ''quote:'' @ symbols"

definition quote_symbolList :: "string \<Rightarrow> string list" where
  "quote_symbolList symbols = map trim (split_comma symbols)"

text \<open>
  \<open>quoteSummary i s\<close> is the promise of the \<open>i\<close>-th provider call of this request,
  made with the argument \<open>s\<close>: two calls with one symbol are independent. \<open>t_get\<close> and
  \<open>t_set\<close> are the clock readings of \<^verbatim>\<open>cache.get\<close> and of \<^verbatim>\<open>cache.set\<close>. The
  \<^verbatim>\<open>catch\<close> branch (status 500) is not reached: under the provider contract nothing
  in the \<^verbatim>\<open>try\<close> block throws. A stored aggregate is an object, which is truthy,
  so \<^verbatim>\<open>if (cached)\<close> is taken exactly on a hit.
\<close>

definition quote_promises :: "(nat \<Rightarrow> string \<Rightarrow> 'v promise) \<Rightarrow> string list \<Rightarrow> 'v promise list" where
  "quote_promises quoteSummary symbolList =
     map (\<lambda>(i, symbol). quoteSummary i (trim symbol)) (enumerate 0 symbolList)"

definition quote_handler ::
  "bool \<Rightarrow> 'v quote_data cache_store \<Rightarrow> int \<Rightarrow> int \<Rightarrow> (nat \<Rightarrow> string \<Rightarrow> 'v promise) \<Rightarrow> nat list
   \<Rightarrow> string \<Rightarrow> 'v quote_data run" where
  "quote_handler enabled c t_get t_set quoteSummary order symbols =
     (let cacheKey = quote_cacheKey symbols;
          symbolList = quote_symbolList symbols;
          cached = (if enabled then cache_get c t_get cacheKey else None);
          lookups = (if enabled then [CacheGet cacheKey] else [])
      in case cached of
           Some d \<Rightarrow> \<lparr>response = Some (Json d), store = c, trace = lookups\<rparr>
         | None \<Rightarrow>
            (let promises = quote_promises quoteSummary symbolList;
                 calls = map (\<lambda>symbol. ProviderCall (trim symbol)) symbolList
             in case allSettled promises order of
                  None \<Rightarrow> \<lparr>response = None, store = c, trace = lookups @ calls\<rparr>
                | Some results \<Rightarrow>
                   (let data = quote_forEach (zip symbolList results) Map.empty
                    in \<lparr>response = Some (Json data),
                        store = (if enabled then cache_set c t_set cacheKey data else c),
                        trace = lookups @ calls @ (if enabled then [CacheSet cacheKey] else [])\<rparr>)))"

section \<open>GET /history/:symbols\<close>

text \<open>
  The aggregate is an array: \<^verbatim>\<open>data.push(result.value.quotes)\<close> for a fulfilled call
  and \<^verbatim>\<open>data.push(null)\<close> for a rejected one.
\<close>

record 'q chart_result =
  chart_quotes :: 'q

text \<open>
  A value of \<^verbatim>\<open>req.query\<close>, as the query parser delivers it: a string, an array
  (\<^verbatim>\<open>?period[]=1d\<close>, or a repeated parameter) or an object (\<^verbatim>\<open>?period[a]=b\<close>). A
  template literal prints it with \<^verbatim>\<open>ToString\<close>: a string as it is, an array as its
  printed elements joined by commas, an object as \<^verbatim>\<open>[object Object]\<close>.
\<close>

datatype query_value =
  QString string
| QArray "query_value list"
| QObject "(string \<times> query_value) list"

fun join_sep :: "string \<Rightarrow> string list \<Rightarrow> string" where
  "join_sep sep [] = []"
| "join_sep sep [x] = x"
| "join_sep sep (x # y # ys) = x @ sep @ join_sep sep (y # ys)"

fun query_toString :: "query_value \<Rightarrow> string" where
  "query_toString (QString s) = s"
| "query_toString (QArray vs) = join_sep '','' (map query_toString vs)"
| "query_toString (QObject props) = ''[object Object]''"

record chart_options =
  opt_period1 :: int
  opt_period2 :: int
  opt_interval :: query_value

datatype 'q history_slot = Quotes 'q | Null

fun history_entry :: "'q chart_result settled \<Rightarrow> 'q history_slot" where
  "history_entry (Fulfilled v) = Quotes (chart_quotes v)"
| "history_entry (Rejected message) = Null"

fun history_forEach :: "'q chart_result settled list \<Rightarrow> 'q history_slot list \<Rightarrow> 'q history_slot list" where
  "history_forEach [] data = data"
| "history_forEach (result # rest) data = history_forEach rest (data @ [history_entry result])"

text \<open>
  The start of the period, in milliseconds. \<^verbatim>\<open>switch (period)\<close> compares with
  \<^verbatim>\<open>===\<close>, so only a string value matches a case; an array or an object falls to
  the default. The two calendar computations of
  \<^verbatim>\<open>Date\<close> are parameters: \<open>startOfYear now\<close> is
  \<^verbatim>\<open>new Date(now.getFullYear(), 0, 1).getTime()\<close> and \<open>localEpoch\<close> is
  \<^verbatim>\<open>new Date(1970, 0, 1).getTime()\<close>.
\<close>

record calendar =
  startOfYear :: "int \<Rightarrow> int"
  localEpoch :: int

definition history_period1 :: "calendar \<Rightarrow> int \<Rightarrow> query_value \<Rightarrow> int" where
  "history_period1 cal now period =
     (if period = QString ''1d'' then now - 24 * 60 * 60 * 1000
      else if period = QString ''5d'' then now - 5 * 24 * 60 * 60 * 1000
      else if period = QString ''1mo'' then now - 30 * 24 * 60 * 60 * 1000
      else if period = QString ''3mo'' then now - 90 * 24 * 60 * 60 * 1000
      else if period = QString ''6mo'' then now - 180 * 24 * 60 * 60 * 1000
      else if period = QString ''1y'' then now - 365 * 24 * 60 * 60 * 1000
      else if period = QString ''2y'' then now - 2 * 365 * 24 * 60 * 60 * 1000
      else if period = QString ''5y'' then now - 5 * 365 * 24 * 60 * 60 * 1000
      else if period = QString ''10y'' then now - 10 * 365 * 24 * 60 * 60 * 1000
      else if period = QString ''ytd'' then startOfYear cal now
      else if period = QString ''max'' then localEpoch cal
      else now - 365 * 24 * 60 * 60 * 1000)"

text \<open>\<^verbatim>\<open>const { period = "1y", interval = "1d" } = req.query;\<close>\<close>

definition history_period :: "query_value option \<Rightarrow> query_value" where
  "history_period period_q = (case period_q of None \<Rightarrow> QString ''1y'' | Some p \<Rightarrow> p)"

definition history_interval :: "query_value option \<Rightarrow> query_value" where
  "history_interval interval_q = (case interval_q of None \<Rightarrow> QString ''1d'' | Some i \<Rightarrow> i)"

definition history_symbolList :: "string \<Rightarrow> string list" where
  "history_symbolList symbols = map trim (split_comma symbols)"

definition history_options :: "calendar \<Rightarrow> int \<Rightarrow> query_value \<Rightarrow> query_value \<Rightarrow> chart_options" where
  "history_options cal now period interval =
     \<lparr>opt_period1 = history_period1 cal now period div 1000,
      opt_period2 = now div 1000,
      opt_interval = interval\<rparr>"

text \<open>
  \<^verbatim>\<open>`history:${symbols}:${period}:${interval}`\<close>: the template prints the period and
  the interval, whatever the query parser delivered.
\<close>

definition history_cacheKey :: "string \<Rightarrow> query_value \<Rightarrow> query_value \<Rightarrow> string" where
  "history_cacheKey symbols period interval =
     ''history:'' @ symbols @ '':'' @ query_toString period @ '':'' @ query_toString interval"

text \<open>
  \<open>now\<close> is \<^verbatim>\<open>new Date().getTime()\<close>, in milliseconds; \<open>chart i s opts\<close> is the
  promise of the \<open>i\<close>-th provider call of this request. The interval goes to the
  provider as the query parser delivered it. The symbols are trimmed once, in the
  symbol list. As in the quote handler, the \<^verbatim>\<open>catch\<close> branch is not reached
  under the provider contract, and a stored array is truthy.
\<close>

definition history_promises ::
  "(nat \<Rightarrow> string \<Rightarrow> chart_options \<Rightarrow> 'q chart_result promise) \<Rightarrow> chart_options \<Rightarrow> string list
   \<Rightarrow> 'q chart_result promise list" where
  "history_promises chart opts symbolList =
     map (\<lambda>(i, symbol). chart i symbol opts) (enumerate 0 symbolList)"

definition history_handler ::
  "bool \<Rightarrow> 'q history_slot list cache_store \<Rightarrow> int \<Rightarrow> int \<Rightarrow> calendar \<Rightarrow> int
   \<Rightarrow> (nat \<Rightarrow> string \<Rightarrow> chart_options \<Rightarrow> 'q chart_result promise) \<Rightarrow> nat list
   \<Rightarrow> string \<Rightarrow> query_value option \<Rightarrow> query_value option \<Rightarrow> 'q history_slot list run" where
  "history_handler enabled c t_get t_set cal now chart order symbols period_q interval_q =
     (let period = history_period period_q;
          interval = history_interval interval_q;
          cacheKey = history_cacheKey symbols period interval;
          symbolList = history_symbolList symbols;
          cached = (if enabled then cache_get c t_get cacheKey else None);
          lookups = (if enabled then [CacheGet cacheKey] else [])
      in case cached of
           Some d \<Rightarrow> \<lparr>response = Some (Json d), store = c, trace = lookups\<rparr>
         | None \<Rightarrow>
            (let opts = history_options cal now period interval;
                 promises = history_promises chart opts symbolList;
                 calls = map ProviderCall symbolList
             in case allSettled promises order of
                  None \<Rightarrow> \<lparr>response = None, store = c, trace = lookups @ calls\<rparr>
                | Some results \<Rightarrow>
                   (let data = history_forEach results []
                    in \<lparr>response = Some (Json data),
                        store = (if enabled then cache_set c t_set cacheKey data else c),
                        trace = lookups @ calls @ (if enabled then [CacheSet cacheKey] else [])\<rparr>)))"

section \<open>GET /screener/:type (routes/screener)\<close>

definition validTypes :: "string list" where
  "validTypes = [''day_gainers'', ''day_losers'', ''most_actives'']"

text \<open>\<^verbatim>\<open>xs.slice(0, end)\<close>: a negative \<open>end\<close> counts from the end of the array.\<close>

definition slice0 :: "'a list \<Rightarrow> int \<Rightarrow> 'a list" where
  "slice0 xs e = (if e < 0 then take (nat (int (length xs) + e)) xs else take (nat e) xs)"

text \<open>The decimal form of an integer, as a template literal prints a number.\<close>

fun digitsOf :: "nat \<Rightarrow> string" where
  "digitsOf n =
     (if n < 10 then [char_of (48 + n)]
      else digitsOf (n div 10) @ [char_of (48 + n mod 10)])"

declare digitsOf.simps [simp del]

definition numberToString :: "int \<Rightarrow> string" where
  "numberToString i = (if i < 0 then CHR ''-'' # digitsOf (nat (- i)) else digitsOf (nat i))"

fun join_comma :: "string list \<Rightarrow> string" where
  "join_comma [] = []"
| "join_comma [x] = x"
| "join_comma (x # y # ys) = x @ '', '' @ join_comma (y # ys)"

text \<open>
  The provider's result: its \<^verbatim>\<open>quotes\<close>, which may be absent, and the other fields,
  which \<^verbatim>\<open>{ ...result, quotes: ... }\<close> copies unchanged.
\<close>

record ('q, 'r) screener_result =
  quotes :: "'q list option"
  other :: 'r

definition screener_count :: "string option \<Rightarrow> int" where
  "screener_count count_q = or_default (parseInt (ToString count_q)) 25"

definition screener_cacheKey :: "string \<Rightarrow> int \<Rightarrow> string" where
  "screener_cacheKey type count = ''screener:'' @ type @ '':'' @ numberToString count"

text \<open>
  \<open>screener\<close> is the promise of the one provider call. A rejection is caught and
  answered with status 500 and the reason's message.
\<close>

definition screener_handler ::
  "bool \<Rightarrow> ('q, 'r) screener_result cache_store \<Rightarrow> int \<Rightarrow> int
   \<Rightarrow> (string \<Rightarrow> ('q, 'r) screener_result promise)
   \<Rightarrow> string \<Rightarrow> string option \<Rightarrow> ('q, 'r) screener_result run" where
  "screener_handler enabled c t_get t_set screener type count_q =
     (if type \<notin> set validTypes
      then \<lparr>response = Some (ErrorStatus 400
               (''Invalid screener type: '' @ type @ ''. Valid types are: '' @ join_comma validTypes)),
            store = c, trace = []\<rparr>
      else
        (let count = screener_count count_q;
             cacheKey = screener_cacheKey type count;
             cached = (if enabled then cache_get c t_get cacheKey else None);
             lookups = (if enabled then [CacheGet cacheKey] else [])
         in case cached of
              Some d \<Rightarrow> \<lparr>response = Some (Json d), store = c, trace = lookups\<rparr>
            | None \<Rightarrow>
               (case screener type of
                  None \<Rightarrow> \<lparr>response = None, store = c, trace = lookups @ [ProviderCall type]\<rparr>
                | Some (Rejected message) \<Rightarrow>
                    \<lparr>response = Some (ErrorStatus 500 message), store = c,
                     trace = lookups @ [ProviderCall type]\<rparr>
                | Some (Fulfilled result) \<Rightarrow>
                   (let slicedResult = result\<lparr>quotes :=
                          Some (slice0 (case quotes result of None \<Rightarrow> [] | Some qs \<Rightarrow> qs)
                                  (min count 100))\<rparr>
                    in \<lparr>response = Some (Json slicedResult),
                        store = (if enabled then cache_set c t_set cacheKey slicedResult else c),
                        trace = lookups @ [ProviderCall type]
                                @ (if enabled then [CacheSet cacheKey] else [])\<rparr>))))"

section \<open>Sample providers\<close>

text \<open>
  Provider behaviours for the concrete runs below. The quote and chart samples reject
  one symbol with "Not found" and fulfil every other call with a value that depends on
  the symbol (its length); the others reject every call with one message, reject the
  call at position 0 only, or fulfil the screener call with a given list of quotes.
\<close>

definition quote_rejecting :: "string \<Rightarrow> nat \<Rightarrow> string \<Rightarrow> nat promise" where
  "quote_rejecting message i symbol = Some (Rejected message)"

definition quote_sample :: "nat \<Rightarrow> string \<Rightarrow> nat promise" where
  "quote_sample i symbol =
     Some (if symbol = ''BADSYM'' then Rejected ''Not found'' else Fulfilled (length symbol))"

definition chart_sample :: "nat \<Rightarrow> string \<Rightarrow> chart_options \<Rightarrow> nat list chart_result promise" where
  "chart_sample i symbol opts =
     Some (if symbol = ''B'' then Rejected ''Not found''
           else Fulfilled \<lparr>chart_quotes = [length symbol]\<rparr>)"

definition quote_first_fails :: "nat \<Rightarrow> string \<Rightarrow> nat promise" where
  "quote_first_fails i symbol = Some (if i = 0 then Rejected ''Not found'' else Fulfilled 7)"

definition chart_rejecting :: "string \<Rightarrow> nat \<Rightarrow> string \<Rightarrow> chart_options \<Rightarrow> nat list chart_result promise" where
  "chart_rejecting message i symbol opts = Some (Rejected message)"

definition screener_rejecting :: "string \<Rightarrow> string \<Rightarrow> (nat, unit) screener_result promise" where
  "screener_rejecting message type = Some (Rejected message)"

definition screener_fulfilling :: "nat list \<Rightarrow> string \<Rightarrow> (nat, unit) screener_result promise" where
  "screener_fulfilling qs type = Some (Fulfilled \<lparr>quotes = Some qs, other = ()\<rparr>)"

definition sample_calendar :: calendar where
  "sample_calendar = \<lparr>startOfYear = (\<lambda>now. 0), localEpoch = 0\<rparr>"

section \<open>The join and the two loops\<close>

lemma length_settle: "length (settle ps order vals) = length vals"
  by (induction order arbitrary: vals) (auto split: option.splits)

lemma settle_nth:
  "i < length vals \<Longrightarrow> length vals = length ps \<Longrightarrow>
   settle ps order vals ! i = (if i \<in> set order \<and> ps ! i \<noteq> None then ps ! i else vals ! i)"
proof (induction order arbitrary: vals)
  case Nil
  then show ?case by simp
next
  case (Cons j order)
  then show ?case
    by (auto simp: nth_list_update split: option.splits)
qed

lemma those_eq_Some: "those xs = Some ys \<longleftrightarrow> xs = map Some ys"
  by (induction xs arbitrary: ys) (auto split: option.splits)

lemma allSettled_eq_Some:
  "allSettled ps order = Some rs \<longleftrightarrow>
     length rs = length ps \<and> (\<forall>i<length ps. i \<in> set order \<and> ps ! i = Some (rs ! i))"
proof -
  have "settle ps order (replicate (length ps) None) = map Some rs \<longleftrightarrow>
        length rs = length ps \<and> (\<forall>i<length ps. i \<in> set order \<and> ps ! i = Some (rs ! i))"
    by (auto simp: list_eq_iff_nth_eq length_settle settle_nth)
  then show ?thesis
    by (simp add: allSettled_def those_eq_Some)
qed

lemma allSettled_pending:
  assumes "i < length ps" and "ps ! i = None"
  shows "allSettled ps order = None"
proof (cases "allSettled ps order")
  case None
  then show ?thesis .
next
  case (Some rs)
  with assms show ?thesis by (auto simp: allSettled_eq_Some)
qed

lemma history_forEach_eq: "history_forEach results data = data @ map history_entry results"
  by (induction results arbitrary: data) auto

lemma quote_forEach_other:
  "s \<notin> fst ` set zs \<Longrightarrow> quote_forEach zs data s = data s"
  by (induction zs arbitrary: data) (auto simp: obj_set_def)

lemma quote_forEach_last:
  assumes "i < length zs" and "fst (zs ! i) \<noteq> ''__proto__''"
    and "fst (zs ! i) \<notin> fst ` set (drop (Suc i) zs)"
  shows "quote_forEach zs data (fst (zs ! i)) = Some (quote_entry (snd (zs ! i)))"
  using assms
proof (induction zs arbitrary: data i)
  case Nil
  then show ?case by simp
next
  case (Cons z zs)
  obtain s r where z: "z = (s, r)" by (cases z)
  show ?case
  proof (cases i)
    case 0
    with Cons.prems z show ?thesis
      by (simp add: quote_forEach_other obj_set_def)
  next
    case (Suc j)
    with Cons.prems z Cons.IH[of j] show ?thesis
      by simp
  qed
qed

lemma dom_obj_set:
  "dom (obj_set data k v) = (if k = ''__proto__'' then dom data else insert k (dom data))"
  by (simp add: obj_set_def)

lemma dom_quote_forEach:
  "dom (quote_forEach zs data) = dom data \<union> (fst ` set zs - {''__proto__''})"
proof (induction zs arbitrary: data)
  case Nil
  then show ?case by simp
next
  case (Cons z zs)
  obtain s r where z: "z = (s, r)" by (cases z)
  have "dom (quote_forEach (z # zs) data)
        = dom (obj_set data s (quote_entry r)) \<union> (fst ` set zs - {''__proto__''})"
    using Cons.IH z by simp
  also have "\<dots> = dom data \<union> (fst ` set (z # zs) - {''__proto__''})"
    using z by (auto simp: dom_obj_set)
  finally show ?case .
qed

lemma allSettled_settled:
  "{..<length rs} \<subseteq> set order \<Longrightarrow> allSettled (map Some rs) order = Some rs"
  by (auto simp: allSettled_eq_Some)

lemma length_split_comma: "split_comma s \<noteq> []"
  by (induction s) (auto split: list.splits)

lemma length_quote_promises [simp]: "length (quote_promises q xs) = length xs"
  by (simp add: quote_promises_def)

lemma length_history_promises [simp]: "length (history_promises ch opts xs) = length xs"
  by (simp add: history_promises_def)

lemma nth_history_promises:
  "i < length xs \<Longrightarrow> history_promises ch opts xs ! i = ch i (xs ! i) opts"
  by (simp add: history_promises_def nth_enumerate_eq)

section \<open>The paths through the handlers\<close>

lemma quote_handler_hit:
  assumes "cache_get c t_get (quote_cacheKey symbols) = Some d"
  shows "quote_handler True c t_get t_set quoteSummary order symbols
         = \<lparr>response = Some (Json d), store = c, trace = [CacheGet (quote_cacheKey symbols)]\<rparr>"
  using assms by (simp add: quote_handler_def)

lemma quote_handler_fanout:
  assumes "enabled \<longrightarrow> cache_get c t_get (quote_cacheKey symbols) = None"
    and "quote_promises quoteSummary (quote_symbolList symbols) = map Some results"
    and "{..<length results} \<subseteq> set order"
  shows "quote_handler enabled c t_get t_set quoteSummary order symbols
         = \<lparr>response = Some (Json (quote_forEach (zip (quote_symbolList symbols) results) Map.empty)),
            store = (if enabled
                     then cache_set c t_set (quote_cacheKey symbols)
                            (quote_forEach (zip (quote_symbolList symbols) results) Map.empty)
                     else c),
            trace = (if enabled then [CacheGet (quote_cacheKey symbols)] else [])
                    @ map (\<lambda>symbol. ProviderCall (trim symbol)) (quote_symbolList symbols)
                    @ (if enabled then [CacheSet (quote_cacheKey symbols)] else [])\<rparr>"
  using assms by (simp add: quote_handler_def Let_def allSettled_settled)

lemma quote_handler_pending:
  assumes "enabled \<longrightarrow> cache_get c t_get (quote_cacheKey symbols) = None"
    and "i < length (quote_symbolList symbols)"
    and "quote_promises quoteSummary (quote_symbolList symbols) ! i = None"
  shows "quote_handler enabled c t_get t_set quoteSummary order symbols
         = \<lparr>response = None, store = c,
            trace = (if enabled then [CacheGet (quote_cacheKey symbols)] else [])
                    @ map (\<lambda>symbol. ProviderCall (trim symbol)) (quote_symbolList symbols)\<rparr>"
  using assms allSettled_pending[of i "quote_promises quoteSummary (quote_symbolList symbols)" order]
  by (simp add: quote_handler_def Let_def)

lemma history_handler_hit:
  assumes "cache_get c t_get (history_cacheKey symbols (history_period period_q) (history_interval interval_q)) = Some d"
  shows "history_handler True c t_get t_set cal now chart order symbols period_q interval_q
         = \<lparr>response = Some (Json d), store = c,
            trace = [CacheGet (history_cacheKey symbols (history_period period_q) (history_interval interval_q))]\<rparr>"
  using assms by (simp add: history_handler_def)

lemma history_handler_fanout:
  assumes "enabled \<longrightarrow> cache_get c t_get (history_cacheKey symbols (history_period period_q) (history_interval interval_q)) = None"
    and "history_promises chart (history_options cal now (history_period period_q) (history_interval interval_q))
           (history_symbolList symbols) = map Some results"
    and "{..<length results} \<subseteq> set order"
  shows "history_handler enabled c t_get t_set cal now chart order symbols period_q interval_q
         = \<lparr>response = Some (Json (map history_entry results)),
            store = (if enabled
                     then cache_set c t_set (history_cacheKey symbols (history_period period_q) (history_interval interval_q))
                            (map history_entry results)
                     else c),
            trace = (if enabled then [CacheGet (history_cacheKey symbols (history_period period_q) (history_interval interval_q))] else [])
                    @ map ProviderCall (history_symbolList symbols)
                    @ (if enabled then [CacheSet (history_cacheKey symbols (history_period period_q) (history_interval interval_q))] else [])\<rparr>"
  using assms by (simp add: history_handler_def Let_def allSettled_settled history_forEach_eq)

lemma last_occurrence:
  assumes "x \<in> set xs"
  shows "\<exists>i<length xs. xs ! i = x \<and> x \<notin> set (drop (Suc i) xs)"
proof -
  from assms obtain ys zs where "xs = ys @ x # zs" and "x \<notin> set zs"
    by (auto dest: split_list_last)
  then have "length ys < length xs \<and> xs ! length ys = x \<and> x \<notin> set (drop (Suc (length ys)) xs)"
    by simp
  then show ?thesis by blast
qed

section \<open>The configuration\<close>

lemma parseInt_undefined: "parseInt (ToString None) = None"
  by (simp add: parseInt_def ToString_def trimStart_def isWhiteSpace_def digitValue_def)

text \<open>
  C10. Caching is enabled for every value of the environment variable
  \<^verbatim>\<open>CACHE_ENABLED\<close> except the exact string "false": the comparison is whole-string
  and case-sensitive, so "FALSE", "False", "0", "no" and the unset variable all leave
  caching enabled, and "false" alone disables it.
\<close>

theorem CACHE_ENABLED_only_false:
  "CACHE_ENABLED env = (env \<noteq> Some ''false'')
   \<and> CACHE_ENABLED (Some ''FALSE'') \<and> CACHE_ENABLED (Some ''False'')
   \<and> CACHE_ENABLED (Some ''0'') \<and> CACHE_ENABLED (Some ''no'')
   \<and> CACHE_ENABLED None \<and> \<not> CACHE_ENABLED (Some ''false'')"
  by (simp add: CACHE_ENABLED_def)

section \<open>The quote fan-out\<close>

lemma quote_symbolList_nonempty: "quote_symbolList symbols \<noteq> []"
  by (simp add: quote_symbolList_def length_split_comma)

lemma quote_symbolList_sample:
  "quote_symbolList ''AAPL,GOOGL,BADSYM'' = [''AAPL'', ''GOOGL'', ''BADSYM'']"
  by (simp add: quote_symbolList_def trim_def isWhiteSpace_def)

text \<open>
  C1, as amended. When the quote handler fans out (caching disabled or a cache miss) and
  every provider call settles, it answers with an aggregate that has one slot for each
  distinct symbol of the key list other than \<^verbatim>\<open>__proto__\<close>: at most as many slots
  as key positions, and exactly as many when the symbols are pairwise distinct. Every
  slot holds the outcome of the last position of its symbol, a value or an error
  marker with the message of the failure.
\<close>

theorem quote_slots_per_distinct_symbol:
  assumes miss: "enabled \<longrightarrow> cache_get c t_get (quote_cacheKey symbols) = None"
    and settled: "quote_promises quoteSummary (quote_symbolList symbols) = map Some results"
    and order: "{..<length results} \<subseteq> set order"
  shows "\<exists>data. response (quote_handler enabled c t_get t_set quoteSummary order symbols) = Some (Json data)
       \<and> dom data = set (quote_symbolList symbols) - {''__proto__''}
       \<and> card (dom data) \<le> length (quote_symbolList symbols)
       \<and> (distinct (quote_symbolList symbols) \<and> ''__proto__'' \<notin> set (quote_symbolList symbols)
            \<longrightarrow> card (dom data) = length (quote_symbolList symbols))
       \<and> (\<forall>s\<in>dom data. \<exists>i<length (quote_symbolList symbols).
              quote_symbolList symbols ! i = s
              \<and> s \<notin> set (drop (Suc i) (quote_symbolList symbols))
              \<and> data s = Some (quote_entry (results ! i)))"
proof -
  define xs where "xs = quote_symbolList symbols"
  define data where "data = quote_forEach (zip xs results) Map.empty"
  have len: "length results = length xs"
    using arg_cong[OF settled, of length] by (simp add: xs_def)
  have resp: "response (quote_handler enabled c t_get t_set quoteSummary order symbols) = Some (Json data)"
    using quote_handler_fanout[OF miss settled order] by (simp add: data_def xs_def)
  have fst_zip: "fst ` set (zip xs results) = set xs"
    using len by (metis map_fst_zip set_map)
  have dom: "dom data = set xs - {''__proto__''}"
    by (simp add: data_def dom_quote_forEach fst_zip)
  have "card (dom data) \<le> card (set xs)"
    unfolding dom by (rule card_mono) auto
  then have card_le: "card (dom data) \<le> length xs"
    using card_length[of xs] by linarith
  have card_eq: "card (dom data) = length xs" if "distinct xs" "''__proto__'' \<notin> set xs"
    using that by (simp add: dom distinct_card)
  have slots: "\<exists>i<length xs. xs ! i = s \<and> s \<notin> set (drop (Suc i) xs) \<and> data s = Some (quote_entry (results ! i))"
    if "s \<in> dom data" for s
  proof -
    from that have s: "s \<in> set xs" "s \<noteq> ''__proto__''" by (auto simp: dom)
    from last_occurrence[OF s(1)] obtain i where i: "i < length xs" "xs ! i = s" "s \<notin> set (drop (Suc i) xs)"
      by blast
    let ?zs = "zip xs results"
    have zi: "?zs ! i = (s, results ! i)" using i len by simp
    have "fst ` set (drop (Suc i) ?zs) = set (drop (Suc i) xs)"
      using len by (metis drop_zip length_drop map_fst_zip set_map)
    with i have later: "fst (?zs ! i) \<notin> fst ` set (drop (Suc i) ?zs)" using zi by simp
    have inside: "i < length ?zs" using i len by simp
    have plain: "fst (?zs ! i) \<noteq> ''__proto__''" using zi s by simp
    have "quote_forEach ?zs Map.empty (fst (?zs ! i)) = Some (quote_entry (snd (?zs ! i)))"
      by (rule quote_forEach_last[OF inside plain later])
    then have "data s = Some (quote_entry (results ! i))"
      using zi by (simp add: data_def)
    with i show ?thesis by blast
  qed
  from resp dom card_le card_eq slots show ?thesis
    unfolding xs_def by blast
qed

theorem quote_slots_per_distinct_symbol_witness:
  "\<exists>data. response (quote_handler True (NodeCache 300) 0 1 quote_sample [2, 0, 1] ''AAPL,GOOGL,BADSYM'')
             = Some (Json data)
        \<and> card (dom data) = 3
        \<and> data ''BADSYM'' = Some (Error ''Not found'')"
proof -
  let ?results = "[Fulfilled 4, Fulfilled 5, Rejected ''Not found'']"
  have miss: "True \<longrightarrow> cache_get (NodeCache 300) 0 (quote_cacheKey ''AAPL,GOOGL,BADSYM'') = (None :: nat quote_data option)"
    by (simp add: cache_get_def NodeCache_def)
  have settled: "quote_promises quote_sample (quote_symbolList ''AAPL,GOOGL,BADSYM'') = map Some ?results"
    by (simp add: quote_symbolList_sample quote_promises_def enumerate_eq_zip quote_sample_def trim_def isWhiteSpace_def)
  have order: "{..<length ?results} \<subseteq> set [2, 0, 1]"
    by (auto simp: lessThan_def)
  from quote_slots_per_distinct_symbol[OF miss settled order, of 1]
  obtain data where d: "response (quote_handler True (NodeCache 300) 0 1 quote_sample [2, 0, 1] ''AAPL,GOOGL,BADSYM'') = Some (Json data)"
    "distinct (quote_symbolList ''AAPL,GOOGL,BADSYM'') \<and> ''__proto__'' \<notin> set (quote_symbolList ''AAPL,GOOGL,BADSYM'')
            \<longrightarrow> card (dom data) = length (quote_symbolList ''AAPL,GOOGL,BADSYM'')"
    by blast
  from d(2) have "card (dom data) = 3" by (simp add: quote_symbolList_sample)
  moreover have "data = quote_forEach (zip (quote_symbolList ''AAPL,GOOGL,BADSYM'') ?results) Map.empty"
    using d(1) quote_handler_fanout[OF miss settled order, of 1] by simp
  then have "data ''BADSYM'' = Some (Error ''Not found'')"
    by (simp add: quote_symbolList_sample obj_set_def)
  ultimately show ?thesis using d(1) by blast
qed

text \<open>
  C1 as stated fails for a key list with a duplicate symbol: the two positions of
  \<^verbatim>\<open>AAPL,AAPL\<close> share one slot, which holds the outcome of the second position; the
  failure of the first position is not in the aggregate. It also fails for the symbol
  \<^verbatim>\<open>__proto__\<close>, which gets no slot at all.
\<close>

theorem quote_duplicate_symbols_share_slot:
  "length (quote_symbolList ''AAPL,AAPL'') = 2
   \<and> response (quote_handler False (NodeCache 300) 0 1 quote_first_fails [0, 1] ''AAPL,AAPL'')
       = Some (Json [''AAPL'' \<mapsto> Value 7])
   \<and> card (dom [''AAPL'' \<mapsto> Value (7::nat)]) = 1
   \<and> length (quote_symbolList ''__proto__'') = 1
   \<and> response (quote_handler False (NodeCache 300) 0 1 quote_first_fails [0] ''__proto__'')
       = Some (Json Map.empty)"
  by (simp add: quote_handler_def quote_symbolList_def quote_cacheKey_def trim_def isWhiteSpace_def
      quote_promises_def enumerate_eq_zip quote_first_fails_def allSettled_def obj_set_def)

section \<open>The history fan-out\<close>

lemma history_promises_settled:
  assumes "\<forall>i<length xs. chart i (xs ! i) opts = Some (r i)"
  shows "history_promises chart opts xs = map Some (map r [0..<length xs])"
proof (rule nth_equalityI)
  show "length (history_promises chart opts xs) = length (map Some (map r [0..<length xs]))"
    by simp
next
  fix i
  assume "i < length (history_promises chart opts xs)"
  then have i: "i < length xs" by simp
  with assms have "chart i (xs ! i) opts = Some (r i)" by blast
  with i show "history_promises chart opts xs ! i = map Some (map r [0..<length xs]) ! i"
    by (simp add: nth_history_promises)
qed

text \<open>
  C2. When the history handler fans out and every provider call settles, the output
  array is aligned with the symbol list whatever the completion order: for every list
  of indices in which each position occurs (every permutation of the positions among
  them), the array has one slot per symbol and the \<open>i\<close>-th slot holds the outcome of
  the call made for the \<open>i\<close>-th symbol.
\<close>

theorem history_output_aligned:
  assumes miss: "enabled \<longrightarrow> cache_get c t_get
                   (history_cacheKey symbols (history_period period_q) (history_interval interval_q)) = None"
    and settled: "\<forall>i<length (history_symbolList symbols).
                    chart i (history_symbolList symbols ! i)
                      (history_options cal now (history_period period_q) (history_interval interval_q))
                    = Some (r i)"
    and order: "{..<length (history_symbolList symbols)} \<subseteq> set order"
  shows "\<exists>data. response (history_handler enabled c t_get t_set cal now chart order symbols period_q interval_q)
                  = Some (Json data)
       \<and> length data = length (history_symbolList symbols)
       \<and> (\<forall>i<length (history_symbolList symbols). data ! i = history_entry (r i))"
proof -
  let ?xs = "history_symbolList symbols"
  let ?results = "map r [0..<length ?xs]"
  have ps: "history_promises chart
              (history_options cal now (history_period period_q) (history_interval interval_q)) ?xs
            = map Some ?results"
    using settled by (rule history_promises_settled)
  have ord: "{..<length ?results} \<subseteq> set order"
    using order by simp
  have "response (history_handler enabled c t_get t_set cal now chart order symbols period_q interval_q)
        = Some (Json (map history_entry ?results))"
    using history_handler_fanout[OF miss ps ord] by simp
  then show ?thesis by simp
qed

lemma history_symbolList_AB: "history_symbolList ''A,B'' = [''A'', ''B'']"
  by (simp add: history_symbolList_def trim_def isWhiteSpace_def)

theorem history_output_aligned_witness:
  "response (history_handler False (NodeCache 300) 0 1 sample_calendar 1000 chart_sample [1, 0] ''A,B'' None None)
     = Some (Json [Quotes [1], Null])
   \<and> response (history_handler False (NodeCache 300) 0 1 sample_calendar 1000 chart_sample [0, 1] ''A,B'' None None)
     = Some (Json [Quotes [1], Null])"
proof -
  define r :: "nat \<Rightarrow> nat list chart_result settled"
    where "r i = (if i = 0 then Fulfilled \<lparr>chart_quotes = [1]\<rparr> else Rejected ''Not found'')" for i
  have miss: "False \<longrightarrow> cache_get (NodeCache 300) 0
                 (history_cacheKey ''A,B'' (history_period None) (history_interval None))
               = (None :: nat list history_slot list option)"
    by simp
  have settled: "\<forall>i<length (history_symbolList ''A,B'').
                    chart_sample i (history_symbolList ''A,B'' ! i)
                      (history_options sample_calendar 1000 (history_period None) (history_interval None))
                    = Some (r i)"
    by (simp add: history_symbolList_AB chart_sample_def less_Suc_eq r_def)
  have o1: "{..<length (history_symbolList ''A,B'')} \<subseteq> set [1, 0]"
    and o2: "{..<length (history_symbolList ''A,B'')} \<subseteq> set [0, 1]"
    by (auto simp: history_symbolList_AB)
  have shape: "data = [Quotes [1], Null]"
    if "length data = length (history_symbolList ''A,B'')"
      and "\<forall>i<length (history_symbolList ''A,B''). data ! i = history_entry (r i)"
    for data :: "nat list history_slot list"
    using that by (simp add: history_symbolList_AB list_eq_iff_nth_eq less_Suc_eq r_def)
  from history_output_aligned[where chart = chart_sample and r = r and t_set = 1, OF miss settled o1] shape
  have "response (history_handler False (NodeCache 300) 0 1 sample_calendar 1000 chart_sample [1, 0] ''A,B'' None None)
     = Some (Json [Quotes [1], Null])"
    by auto
  moreover from history_output_aligned[where chart = chart_sample and r = r and t_set = 1, OF miss settled o2] shape
  have "response (history_handler False (NodeCache 300) 0 1 sample_calendar 1000 chart_sample [0, 1] ''A,B'' None None)
     = Some (Json [Quotes [1], Null])"
    by auto
  ultimately show ?thesis by simp
qed

section \<open>Failures inside a fan-out\<close>

lemma quote_forEach_zip_last:
  assumes len: "length results = length xs" and i: "i < length xs"
    and plain: "xs ! i \<noteq> ''__proto__''" and later: "xs ! i \<notin> set (drop (Suc i) xs)"
  shows "quote_forEach (zip xs results) Map.empty (xs ! i) = Some (quote_entry (results ! i))"
proof -
  let ?zs = "zip xs results"
  have zi: "?zs ! i = (xs ! i, results ! i)" using i len by simp
  have "fst ` set (drop (Suc i) ?zs) = set (drop (Suc i) xs)"
    using len by (metis drop_zip length_drop map_fst_zip set_map)
  with later zi have 3: "fst (?zs ! i) \<notin> fst ` set (drop (Suc i) ?zs)" by simp
  have 1: "i < length ?zs" using i len by simp
  have 2: "fst (?zs ! i) \<noteq> ''__proto__''" using zi plain by simp
  from quote_forEach_last[OF 1 2 3, of Map.empty] zi show ?thesis by simp
qed

text \<open>
  C3, as amended. In both fan-outs a rejected provider call neither aborts the
  aggregation nor makes the handler answer with an error status: when every call has
  settled, fulfilled or rejected, the handler answers with the aggregate, and every
  slot is determined by the outcome of its own call alone. In keyed quote mode the
  slot of a failing position (the last one of its symbol, the symbol not being
  \<^verbatim>\<open>__proto__\<close>) holds the error marker with the message of the failure. In ordered
  history mode the slot of a failing position holds \<^verbatim>\<open>null\<close>.
\<close>

theorem failure_stays_in_its_slot:
  assumes qmiss: "qenabled \<longrightarrow> cache_get qc qt_get (quote_cacheKey qsymbols) = None"
    and qsettled: "quote_promises quoteSummary (quote_symbolList qsymbols) = map Some qresults"
    and qorder: "{..<length qresults} \<subseteq> set qorder"
    and hmiss: "henabled \<longrightarrow> cache_get hc ht_get
                  (history_cacheKey hsymbols (history_period period_q) (history_interval interval_q)) = None"
    and hsettled: "history_promises chart
                     (history_options cal now (history_period period_q) (history_interval interval_q))
                     (history_symbolList hsymbols) = map Some hresults"
    and horder: "{..<length hresults} \<subseteq> set horder"
  shows "(\<exists>data. response (quote_handler qenabled qc qt_get qt_set quoteSummary qorder qsymbols)
                   = Some (Json data)
          \<and> (\<forall>i<length (quote_symbolList qsymbols).
                quote_symbolList qsymbols ! i \<noteq> ''__proto__''
                \<and> quote_symbolList qsymbols ! i \<notin> set (drop (Suc i) (quote_symbolList qsymbols))
                \<longrightarrow> data (quote_symbolList qsymbols ! i)
                     = Some (case qresults ! i of
                               Fulfilled v \<Rightarrow> Value v
                             | Rejected message \<Rightarrow> Error message)))
       \<and> (\<exists>data. response (history_handler henabled hc ht_get ht_set cal now chart horder
                              hsymbols period_q interval_q)
                     = Some (Json data)
            \<and> length data = length (history_symbolList hsymbols)
            \<and> (\<forall>i<length (history_symbolList hsymbols).
                  data ! i = (case hresults ! i of
                                Fulfilled v \<Rightarrow> Quotes (chart_quotes v)
                              | Rejected message \<Rightarrow> Null)))"
proof -
  have qentry: "quote_entry r = (case r of Fulfilled v \<Rightarrow> Value v | Rejected message \<Rightarrow> Error message)"
    for r :: "'a settled"
    by (cases r) simp_all
  have hentry: "history_entry r = (case r of Fulfilled v \<Rightarrow> Quotes (chart_quotes v) | Rejected message \<Rightarrow> Null)"
    for r :: "'b chart_result settled"
    by (cases r) simp_all
  have qlen: "length qresults = length (quote_symbolList qsymbols)"
    using arg_cong[OF qsettled, of length] by simp
  have hlen: "length hresults = length (history_symbolList hsymbols)"
    using arg_cong[OF hsettled, of length] by simp
  have q: "response (quote_handler qenabled qc qt_get qt_set quoteSummary qorder qsymbols)
           = Some (Json (quote_forEach (zip (quote_symbolList qsymbols) qresults) Map.empty))"
    using quote_handler_fanout[OF qmiss qsettled qorder] by simp
  have h: "response (history_handler henabled hc ht_get ht_set cal now chart horder hsymbols period_q interval_q)
           = Some (Json (map history_entry hresults))"
    using history_handler_fanout[OF hmiss hsettled horder] by simp
  have "\<forall>i<length (quote_symbolList qsymbols).
          quote_symbolList qsymbols ! i \<noteq> ''__proto__''
          \<and> quote_symbolList qsymbols ! i \<notin> set (drop (Suc i) (quote_symbolList qsymbols))
          \<longrightarrow> quote_forEach (zip (quote_symbolList qsymbols) qresults) Map.empty (quote_symbolList qsymbols ! i)
               = Some (case qresults ! i of Fulfilled v \<Rightarrow> Value v | Rejected message \<Rightarrow> Error message)"
    using quote_forEach_zip_last[OF qlen] by (simp add: qentry)
  with q have qpart: "\<exists>data. response (quote_handler qenabled qc qt_get qt_set quoteSummary qorder qsymbols)
                   = Some (Json data)
          \<and> (\<forall>i<length (quote_symbolList qsymbols).
                quote_symbolList qsymbols ! i \<noteq> ''__proto__''
                \<and> quote_symbolList qsymbols ! i \<notin> set (drop (Suc i) (quote_symbolList qsymbols))
                \<longrightarrow> data (quote_symbolList qsymbols ! i)
                     = Some (case qresults ! i of
                               Fulfilled v \<Rightarrow> Value v
                             | Rejected message \<Rightarrow> Error message))"
    by blast
  have "length (map history_entry hresults) = length (history_symbolList hsymbols)
        \<and> (\<forall>i<length (history_symbolList hsymbols).
              map history_entry hresults ! i
              = (case hresults ! i of Fulfilled v \<Rightarrow> Quotes (chart_quotes v) | Rejected message \<Rightarrow> Null))"
    using hlen by (simp add: hentry)
  with h have hpart: "\<exists>data. response (history_handler henabled hc ht_get ht_set cal now chart horder
                              hsymbols period_q interval_q)
                     = Some (Json data)
            \<and> length data = length (history_symbolList hsymbols)
            \<and> (\<forall>i<length (history_symbolList hsymbols).
                  data ! i = (case hresults ! i of
                                Fulfilled v \<Rightarrow> Quotes (chart_quotes v)
                              | Rejected message \<Rightarrow> Null))"
    by blast
  from qpart hpart show ?thesis by (rule conjI)
qed

theorem failure_stays_in_its_slot_witness:
  "(\<exists>data. response (quote_handler False (NodeCache 300) 0 1 quote_sample [2, 0, 1] ''AAPL,GOOGL,BADSYM'')
             = Some (Json data)
          \<and> data ''AAPL'' = Some (Value 4)
          \<and> data ''BADSYM'' = Some (Error ''Not found''))
   \<and> (\<exists>data. response (history_handler False (NodeCache 300) 0 1 sample_calendar 1000 chart_sample [1, 0]
                          ''A,B'' None None)
                 = Some (Json data)
          \<and> data ! 0 = Quotes [1]
          \<and> data ! 1 = Null)"
proof -
  let ?qresults = "[Fulfilled 4, Fulfilled 5, Rejected ''Not found'']"
  let ?hresults = "[Fulfilled \<lparr>chart_quotes = [1]\<rparr>, Rejected ''Not found'']"
  have qmiss: "False \<longrightarrow> cache_get (NodeCache 300) 0 (quote_cacheKey ''AAPL,GOOGL,BADSYM'')
                 = (None :: nat quote_data option)"
    by simp
  have qsettled: "quote_promises quote_sample (quote_symbolList ''AAPL,GOOGL,BADSYM'') = map Some ?qresults"
    by (simp add: quote_symbolList_sample quote_promises_def enumerate_eq_zip quote_sample_def trim_def isWhiteSpace_def)
  have qorder: "{..<length ?qresults} \<subseteq> set [2, 0, 1]"
    by (auto simp: lessThan_def)
  have hmiss: "False \<longrightarrow> cache_get (NodeCache 300) 0
                 (history_cacheKey ''A,B'' (history_period None) (history_interval None))
               = (None :: nat list history_slot list option)"
    by simp
  have hsettled: "history_promises chart_sample
                     (history_options sample_calendar 1000 (history_period None) (history_interval None))
                     (history_symbolList ''A,B'') = map Some ?hresults"
    by (simp add: history_symbolList_AB history_promises_def enumerate_eq_zip chart_sample_def)
  have horder: "{..<length ?hresults} \<subseteq> set [1, 0]"
    by (auto simp: lessThan_def)
  note main = failure_stays_in_its_slot[where quoteSummary = quote_sample and chart = chart_sample
      and qt_set = 1 and ht_set = 1, OF qmiss qsettled qorder hmiss hsettled horder]
  from main obtain qdata where
    q: "response (quote_handler False (NodeCache 300) 0 1 quote_sample [2, 0, 1] ''AAPL,GOOGL,BADSYM'')
         = Some (Json qdata)"
    and qslots: "\<forall>i<length (quote_symbolList ''AAPL,GOOGL,BADSYM'').
                quote_symbolList ''AAPL,GOOGL,BADSYM'' ! i \<noteq> ''__proto__''
                \<and> quote_symbolList ''AAPL,GOOGL,BADSYM'' ! i
                     \<notin> set (drop (Suc i) (quote_symbolList ''AAPL,GOOGL,BADSYM''))
                \<longrightarrow> qdata (quote_symbolList ''AAPL,GOOGL,BADSYM'' ! i)
                     = Some (case ?qresults ! i of
                               Fulfilled v \<Rightarrow> Value v
                             | Rejected message \<Rightarrow> Error message)"
    by blast
  from main obtain hdata where
    h: "response (history_handler False (NodeCache 300) 0 1 sample_calendar 1000 chart_sample [1, 0]
                          ''A,B'' None None) = Some (Json hdata)"
    and hslots: "\<forall>i<length (history_symbolList ''A,B'').
                  hdata ! i = (case ?hresults ! i of
                                Fulfilled v \<Rightarrow> Quotes (chart_quotes v)
                              | Rejected message \<Rightarrow> Null)"
    by blast
  from qslots[rule_format, of 0] have q0: "qdata ''AAPL'' = Some (Value 4)"
    by (simp add: quote_symbolList_sample)
  from qslots[rule_format, of 2] have q2: "qdata ''BADSYM'' = Some (Error ''Not found'')"
    by (simp add: quote_symbolList_sample)
  from hslots[rule_format, of 0] have h0: "hdata ! 0 = Quotes [1]"
    by (simp add: history_symbolList_AB)
  from hslots[rule_format, of 1] have h1: "hdata ! 1 = Null"
    by (simp add: history_symbolList_AB)
  from q q0 q2 h h0 h1 show ?thesis by blast
qed

text \<open>
  C3 as stated fails in ordered history mode: the slot of a failing symbol holds
  \<^verbatim>\<open>null\<close> whatever the message of the failure, so the aggregate carries no message.
\<close>

theorem history_failure_marker_has_no_message:
  "response (history_handler False (NodeCache 300) 0 1 sample_calendar 1000
              (chart_rejecting ''Not found'') [0] ''BADSYM'' None None)
     = Some (Json [Null])
   \<and> response (history_handler False (NodeCache 300) 0 1 sample_calendar 1000
              (chart_rejecting ''Timeout'') [0] ''BADSYM'' None None)
     = Some (Json [Null])"
  by (simp add: history_handler_def history_symbolList_def trim_def isWhiteSpace_def
      history_promises_def enumerate_eq_zip chart_rejecting_def allSettled_def)

section \<open>The cache around the quote fan-out\<close>

lemma cache_get_cache_set:
  "cache_get (cache_set c now k v) t k = (if t < now + stdTTL c then Some v else None)"
  by (simp add: cache_get_def cache_set_def cache_set_ttl_def)

lemma quote_handler_miss:
  assumes "cache_get c t_get (quote_cacheKey symbols) = None"
  shows "quote_handler True c t_get t_set quoteSummary order symbols =
     (case allSettled (quote_promises quoteSummary (quote_symbolList symbols)) order of
        None \<Rightarrow> \<lparr>response = None, store = c,
                  trace = [CacheGet (quote_cacheKey symbols)]
                          @ map (\<lambda>symbol. ProviderCall (trim symbol)) (quote_symbolList symbols)\<rparr>
      | Some results \<Rightarrow>
          \<lparr>response = Some (Json (quote_forEach (zip (quote_symbolList symbols) results) Map.empty)),
           store = cache_set c t_set (quote_cacheKey symbols)
                     (quote_forEach (zip (quote_symbolList symbols) results) Map.empty),
           trace = [CacheGet (quote_cacheKey symbols)]
                   @ map (\<lambda>symbol. ProviderCall (trim symbol)) (quote_symbolList symbols)
                   @ [CacheSet (quote_cacheKey symbols)]\<rparr>)"
  using assms by (simp add: quote_handler_def Let_def split: option.splits)

text \<open>
  C4. On a cache miss the quote handler writes the cache only after the join: if the
  store was written, every per-key call had settled, and the write is the last event
  of the run, after all provider calls. Whatever mix of fulfilled and rejected calls
  the aggregate holds, all of them rejected included, it is stored under the cache
  key, a lookup before its expiry returns it, and a later request is answered with it.
\<close>

theorem quote_cache_written_after_join:
  assumes miss: "cache_get c t_get (quote_cacheKey symbols) = None"
  shows "(CacheSet (quote_cacheKey symbols)
            \<in> set (trace (quote_handler True c t_get t_set quoteSummary order symbols))
          \<or> store (quote_handler True c t_get t_set quoteSummary order symbols) \<noteq> c
          \<longrightarrow> (\<forall>i<length (quote_symbolList symbols).
                 i \<in> set order \<and> quote_promises quoteSummary (quote_symbolList symbols) ! i \<noteq> None))
       \<and> (quote_promises quoteSummary (quote_symbolList symbols) = map Some results
          \<and> {..<length results} \<subseteq> set order
          \<longrightarrow> trace (quote_handler True c t_get t_set quoteSummary order symbols)
                = [CacheGet (quote_cacheKey symbols)]
                  @ map (\<lambda>symbol. ProviderCall (trim symbol)) (quote_symbolList symbols)
                  @ [CacheSet (quote_cacheKey symbols)]
              \<and> response (quote_handler True c t_get t_set quoteSummary order symbols)
                = Some (Json (quote_forEach (zip (quote_symbolList symbols) results) Map.empty))
              \<and> (\<forall>t<t_set + stdTTL c.
                    cache_get (store (quote_handler True c t_get t_set quoteSummary order symbols)) t
                       (quote_cacheKey symbols)
                    = Some (quote_forEach (zip (quote_symbolList symbols) results) Map.empty)
                    \<and> response (quote_handler True
                                   (store (quote_handler True c t_get t_set quoteSummary order symbols))
                                   t t_set' quoteSummary' order' symbols)
                      = Some (Json (quote_forEach (zip (quote_symbolList symbols) results) Map.empty))))"
proof (intro conjI impI)
  let ?ps = "quote_promises quoteSummary (quote_symbolList symbols)"
  let ?run = "quote_handler True c t_get t_set quoteSummary order symbols"
  assume written: "CacheSet (quote_cacheKey symbols) \<in> set (trace ?run) \<or> store ?run \<noteq> c"
  show "\<forall>i<length (quote_symbolList symbols). i \<in> set order \<and> ?ps ! i \<noteq> None"
  proof (cases "allSettled ?ps order")
    case None
    then have "trace ?run = [CacheGet (quote_cacheKey symbols)]
                 @ map (\<lambda>symbol. ProviderCall (trim symbol)) (quote_symbolList symbols)"
      and "store ?run = c"
      by (simp_all add: quote_handler_miss[OF miss])
    with written show ?thesis by auto
  next
    case (Some rs)
    then show ?thesis by (auto simp: allSettled_eq_Some)
  qed
next
  let ?run = "quote_handler True c t_get t_set quoteSummary order symbols"
  let ?data = "quote_forEach (zip (quote_symbolList symbols) results) Map.empty"
  assume settled: "quote_promises quoteSummary (quote_symbolList symbols) = map Some results
          \<and> {..<length results} \<subseteq> set order"
  have miss': "True \<longrightarrow> cache_get c t_get (quote_cacheKey symbols) = None"
    using miss by simp
  have run: "?run = \<lparr>response = Some (Json ?data),
                     store = cache_set c t_set (quote_cacheKey symbols) ?data,
                     trace = [CacheGet (quote_cacheKey symbols)]
                             @ map (\<lambda>symbol. ProviderCall (trim symbol)) (quote_symbolList symbols)
                             @ [CacheSet (quote_cacheKey symbols)]\<rparr>"
    using quote_handler_fanout[OF miss' conjunct1[OF settled] conjunct2[OF settled], of t_set] by simp
  show "trace ?run = [CacheGet (quote_cacheKey symbols)]
                  @ map (\<lambda>symbol. ProviderCall (trim symbol)) (quote_symbolList symbols)
                  @ [CacheSet (quote_cacheKey symbols)]"
    by (simp add: run)
  show "response ?run = Some (Json ?data)"
    by (simp add: run)
  show "\<forall>t<t_set + stdTTL c.
          cache_get (store ?run) t (quote_cacheKey symbols) = Some ?data
          \<and> response (quote_handler True (store ?run) t t_set' quoteSummary' order' symbols)
            = Some (Json ?data)"
  proof (intro allI impI)
    fix t assume t: "t < t_set + stdTTL c"
    have got: "cache_get (store ?run) t (quote_cacheKey symbols) = Some ?data"
      using t by (simp add: run cache_get_cache_set)
    from quote_handler_hit[OF got] got
    show "cache_get (store ?run) t (quote_cacheKey symbols) = Some ?data
          \<and> response (quote_handler True (store ?run) t t_set' quoteSummary' order' symbols)
            = Some (Json ?data)"
      by simp
  qed
qed

theorem quote_cache_written_after_join_witness:
  "response (quote_handler True (NodeCache 300) 0 1 (quote_rejecting ''Not found'') [0] ''BADSYM'')
     = Some (Json [''BADSYM'' \<mapsto> Error ''Not found''])
   \<and> cache_get (store (quote_handler True (NodeCache 300) 0 1 (quote_rejecting ''Not found'') [0] ''BADSYM''))
        300 (quote_cacheKey ''BADSYM'')
     = Some [''BADSYM'' \<mapsto> Error ''Not found'']
   \<and> response (quote_handler True
                  (store (quote_handler True (NodeCache 300) 0 1 (quote_rejecting ''Not found'') [0] ''BADSYM''))
                  300 301 quote_sample [] ''BADSYM'')
     = Some (Json [''BADSYM'' \<mapsto> Error ''Not found''])"
proof -
  have miss: "cache_get (NodeCache 300) 0 (quote_cacheKey ''BADSYM'') = (None :: nat quote_data option)"
    by (simp add: cache_get_def NodeCache_def)
  have list: "quote_symbolList ''BADSYM'' = [''BADSYM'']"
    by (simp add: quote_symbolList_def trim_def isWhiteSpace_def)
  have settled: "quote_promises (quote_rejecting ''Not found'') (quote_symbolList ''BADSYM'')
                 = map Some [Rejected ''Not found'']
                 \<and> {..<length [Rejected ''Not found'' :: nat settled]} \<subseteq> set [0]"
    by (auto simp: list quote_promises_def enumerate_eq_zip quote_rejecting_def)
  have data: "quote_forEach (zip (quote_symbolList ''BADSYM'') [Rejected ''Not found''])
                (Map.empty :: nat quote_data)
              = [''BADSYM'' \<mapsto> Error ''Not found'']"
    by (simp add: list obj_set_def)
  have t: "(300::int) < 1 + stdTTL (NodeCache 300 :: nat quote_data cache_store)"
    by (simp add: NodeCache_def)
  note main = quote_cache_written_after_join[OF miss, where quoteSummary = "quote_rejecting ''Not found''"
      and order = "[0]" and t_set = 1 and results = "[Rejected ''Not found'']"
      and t_set' = 301 and quoteSummary' = quote_sample and order' = "[]",
      THEN conjunct2, rule_format, OF settled]
  from main[THEN conjunct2, THEN conjunct1] main[THEN conjunct2, THEN conjunct2, rule_format, OF t]
  show ?thesis by (simp add: data)
qed

section \<open>A repeated request\<close>

lemma history_handler_miss:
  assumes "cache_get c t_get (history_cacheKey symbols (history_period period_q) (history_interval interval_q)) = None"
  shows "history_handler True c t_get t_set cal now chart order symbols period_q interval_q =
     (case allSettled (history_promises chart
               (history_options cal now (history_period period_q) (history_interval interval_q))
               (history_symbolList symbols)) order of
        None \<Rightarrow> \<lparr>response = None, store = c,
                  trace = [CacheGet (history_cacheKey symbols (history_period period_q) (history_interval interval_q))]
                          @ map ProviderCall (history_symbolList symbols)\<rparr>
      | Some results \<Rightarrow>
          \<lparr>response = Some (Json (map history_entry results)),
           store = cache_set c t_set
                     (history_cacheKey symbols (history_period period_q) (history_interval interval_q))
                     (map history_entry results),
           trace = [CacheGet (history_cacheKey symbols (history_period period_q) (history_interval interval_q))]
                   @ map ProviderCall (history_symbolList symbols)
                   @ [CacheSet (history_cacheKey symbols (history_period period_q) (history_interval interval_q))]\<rparr>)"
  using assms by (simp add: history_handler_def Let_def history_forEach_eq split: option.splits)

lemma screener_handler_hit:
  assumes "type \<in> set validTypes"
    and "cache_get c t_get (screener_cacheKey type (screener_count count_q)) = Some d"
  shows "screener_handler True c t_get t_set screener type count_q
         = \<lparr>response = Some (Json d), store = c,
            trace = [CacheGet (screener_cacheKey type (screener_count count_q))]\<rparr>"
  using assms by (simp add: screener_handler_def Let_def)

lemma screener_handler_miss_Json:
  assumes "cache_get c t_get (screener_cacheKey type (screener_count count_q)) = None"
    and "response (screener_handler True c t_get t_set screener type count_q) = Some (Json d)"
  shows "type \<in> set validTypes
       \<and> store (screener_handler True c t_get t_set screener type count_q)
           = cache_set c t_set (screener_cacheKey type (screener_count count_q)) d"
  using assms by (auto simp: screener_handler_def Let_def split: if_splits option.splits settled.splits)

lemma screener_Json_valid:
  assumes "response (screener_handler enabled c t_get t_set screener type count_q) = Some (Json d)"
  shows "type \<in> set validTypes"
  using assms by (auto simp: screener_handler_def split: if_splits)

lemma cache_get_live:
  "entries c k = Some (d, expiresAt) \<Longrightarrow> t < expiresAt \<Longrightarrow> cache_get c t k = Some d"
  by (simp add: cache_get_def)

lemma quote_second_call:
  assumes responded: "response (quote_handler True c t_get1 t_set1 quoteSummary1 order1 symbols) = Some resp"
    and window: "cache_get c t_get1 (quote_cacheKey symbols) = None \<and> t_get2 < t_set1 + stdTTL c
                 \<or> (\<exists>d expiresAt. entries c (quote_cacheKey symbols) = Some (d, expiresAt)
                        \<and> t_get1 < expiresAt \<and> t_get2 < expiresAt)"
  shows "quote_handler True (store (quote_handler True c t_get1 t_set1 quoteSummary1 order1 symbols))
           t_get2 t_set2 quoteSummary2 order2 symbols
         = \<lparr>response = Some resp,
            store = store (quote_handler True c t_get1 t_set1 quoteSummary1 order1 symbols),
            trace = [CacheGet (quote_cacheKey symbols)]\<rparr>"
proof -
  let ?run1 = "quote_handler True c t_get1 t_set1 quoteSummary1 order1 symbols"
  let ?key = "quote_cacheKey symbols"
  have "\<exists>d. resp = Json d \<and> cache_get (store ?run1) t_get2 ?key = Some d"
    using window
  proof
    assume a: "cache_get c t_get1 ?key = None \<and> t_get2 < t_set1 + stdTTL c"
    then have miss: "cache_get c t_get1 ?key = None" and t: "t_get2 < t_set1 + stdTTL c"
      by simp_all
    show ?thesis
    proof (cases "allSettled (quote_promises quoteSummary1 (quote_symbolList symbols)) order1")
      case None
      then have "response ?run1 = None"
        by (simp add: quote_handler_miss[OF miss])
      with responded show ?thesis by simp
    next
      case (Some results)
      with responded t show ?thesis
        by (auto simp: quote_handler_miss[OF miss] cache_get_cache_set)
    qed
  next
    assume "\<exists>d expiresAt. entries c ?key = Some (d, expiresAt) \<and> t_get1 < expiresAt \<and> t_get2 < expiresAt"
    then obtain d expiresAt where e: "entries c ?key = Some (d, expiresAt)"
      and t1: "t_get1 < expiresAt" and t2: "t_get2 < expiresAt"
      by blast
    from quote_handler_hit[OF cache_get_live[OF e t1]] responded cache_get_live[OF e t2]
    show ?thesis by auto
  qed
  then obtain d where "resp = Json d" and "cache_get (store ?run1) t_get2 ?key = Some d"
    by blast
  with quote_handler_hit[of "store ?run1" t_get2 symbols d] show ?thesis
    by simp
qed

lemma history_second_call:
  assumes responded: "response (history_handler True c t_get1 t_set1 cal1 now1 chart1 order1
                                  symbols period_q interval_q) = Some resp"
    and window: "cache_get c t_get1
                   (history_cacheKey symbols (history_period period_q) (history_interval interval_q)) = None
                 \<and> t_get2 < t_set1 + stdTTL c
                 \<or> (\<exists>d expiresAt.
                        entries c (history_cacheKey symbols (history_period period_q) (history_interval interval_q))
                          = Some (d, expiresAt)
                        \<and> t_get1 < expiresAt \<and> t_get2 < expiresAt)"
  shows "history_handler True
           (store (history_handler True c t_get1 t_set1 cal1 now1 chart1 order1 symbols period_q interval_q))
           t_get2 t_set2 cal2 now2 chart2 order2 symbols period_q interval_q
         = \<lparr>response = Some resp,
            store = store (history_handler True c t_get1 t_set1 cal1 now1 chart1 order1
                             symbols period_q interval_q),
            trace = [CacheGet (history_cacheKey symbols (history_period period_q)
                                 (history_interval interval_q))]\<rparr>"
proof -
  let ?run1 = "history_handler True c t_get1 t_set1 cal1 now1 chart1 order1 symbols period_q interval_q"
  let ?key = "history_cacheKey symbols (history_period period_q) (history_interval interval_q)"
  have "\<exists>d. resp = Json d \<and> cache_get (store ?run1) t_get2 ?key = Some d"
    using window
  proof
    assume a: "cache_get c t_get1 ?key = None \<and> t_get2 < t_set1 + stdTTL c"
    then have miss: "cache_get c t_get1 ?key = None" and t: "t_get2 < t_set1 + stdTTL c"
      by simp_all
    show ?thesis
    proof (cases "allSettled (history_promises chart1
               (history_options cal1 now1 (history_period period_q) (history_interval interval_q))
               (history_symbolList symbols)) order1")
      case None
      then have "response ?run1 = None"
        by (simp add: history_handler_miss[OF miss])
      with responded show ?thesis by simp
    next
      case (Some results)
      with responded t show ?thesis
        by (auto simp: history_handler_miss[OF miss] cache_get_cache_set)
    qed
  next
    assume "\<exists>d expiresAt. entries c ?key = Some (d, expiresAt) \<and> t_get1 < expiresAt \<and> t_get2 < expiresAt"
    then obtain d expiresAt where e: "entries c ?key = Some (d, expiresAt)"
      and t1: "t_get1 < expiresAt" and t2: "t_get2 < expiresAt"
      by blast
    from history_handler_hit[OF cache_get_live[OF e t1]] responded cache_get_live[OF e t2]
    show ?thesis by auto
  qed
  then obtain d where "resp = Json d" and "cache_get (store ?run1) t_get2 ?key = Some d"
    by blast
  with history_handler_hit[of "store ?run1" t_get2 symbols period_q interval_q d] show ?thesis
    by simp
qed

lemma screener_second_call:
  assumes responded: "response (screener_handler True c t_get1 t_set1 screener1 type count_q)
                      = Some (Json result)"
    and window: "cache_get c t_get1 (screener_cacheKey type (screener_count count_q)) = None
                 \<and> t_get2 < t_set1 + stdTTL c
                 \<or> (\<exists>d expiresAt.
                        entries c (screener_cacheKey type (screener_count count_q)) = Some (d, expiresAt)
                        \<and> t_get1 < expiresAt \<and> t_get2 < expiresAt)"
  shows "screener_handler True (store (screener_handler True c t_get1 t_set1 screener1 type count_q))
           t_get2 t_set2 screener2 type count_q
         = \<lparr>response = Some (Json result),
            store = store (screener_handler True c t_get1 t_set1 screener1 type count_q),
            trace = [CacheGet (screener_cacheKey type (screener_count count_q))]\<rparr>"
proof -
  let ?run1 = "screener_handler True c t_get1 t_set1 screener1 type count_q"
  let ?key = "screener_cacheKey type (screener_count count_q)"
  have valid: "type \<in> set validTypes"
    using responded by (rule screener_Json_valid)
  have "cache_get (store ?run1) t_get2 ?key = Some result"
    using window
  proof
    assume a: "cache_get c t_get1 ?key = None \<and> t_get2 < t_set1 + stdTTL c"
    then have miss: "cache_get c t_get1 ?key = None" and t: "t_get2 < t_set1 + stdTTL c"
      by simp_all
    from screener_handler_miss_Json[OF miss responded] t show ?thesis
      by (simp add: cache_get_cache_set)
  next
    assume "\<exists>d expiresAt. entries c ?key = Some (d, expiresAt) \<and> t_get1 < expiresAt \<and> t_get2 < expiresAt"
    then obtain d expiresAt where e: "entries c ?key = Some (d, expiresAt)"
      and t1: "t_get1 < expiresAt" and t2: "t_get2 < expiresAt"
      by blast
    from screener_handler_hit[OF valid cache_get_live[OF e t1]] responded cache_get_live[OF e t2]
    show ?thesis by auto
  qed
  from screener_handler_hit[OF valid this] show ?thesis .
qed

text \<open>
  C5, as amended. With caching enabled, a second call of the quote or of the history
  handler with the same parameters as received (the same symbols segment, character
  for character, the same period and interval), made inside the TTL window of the
  entry, gets the response of the first call and makes no provider call: its only
  event is the cache lookup, and it leaves the store as it found it. The same holds
  for the screener when the first call was answered with a result. When the first
  call was a miss, the window ends \<open>stdTTL\<close> seconds after its \<^verbatim>\<open>cache.set\<close>; when
  it was itself a hit, the window is that of the entry it read. The behaviour of the
  provider during the second call is arbitrary.
\<close>

theorem second_call_served_from_cache:
  "(response (quote_handler True qc t_get t_set quoteSummary qorder qsymbols) = Some qresp
    \<and> (cache_get qc t_get (quote_cacheKey qsymbols) = None \<and> t_get' < t_set + stdTTL qc
       \<or> (\<exists>d expiresAt. entries qc (quote_cacheKey qsymbols) = Some (d, expiresAt)
              \<and> t_get < expiresAt \<and> t_get' < expiresAt))
    \<longrightarrow> quote_handler True (store (quote_handler True qc t_get t_set quoteSummary qorder qsymbols))
          t_get' t_set' quoteSummary' qorder' qsymbols
        = \<lparr>response = Some qresp,
           store = store (quote_handler True qc t_get t_set quoteSummary qorder qsymbols),
           trace = [CacheGet (quote_cacheKey qsymbols)]\<rparr>)
   \<and> (response (history_handler True hc t_get t_set cal now chart horder
                   hsymbols period_q interval_q) = Some hresp
      \<and> (cache_get hc t_get
            (history_cacheKey hsymbols (history_period period_q) (history_interval interval_q)) = None
          \<and> t_get' < t_set + stdTTL hc
         \<or> (\<exists>d expiresAt.
                entries hc (history_cacheKey hsymbols (history_period period_q) (history_interval interval_q))
                  = Some (d, expiresAt)
                \<and> t_get < expiresAt \<and> t_get' < expiresAt))
      \<longrightarrow> history_handler True
            (store (history_handler True hc t_get t_set cal now chart horder
                      hsymbols period_q interval_q))
            t_get' t_set' cal' now' chart' horder' hsymbols period_q interval_q
          = \<lparr>response = Some hresp,
             store = store (history_handler True hc t_get t_set cal now chart horder
                              hsymbols period_q interval_q),
             trace = [CacheGet (history_cacheKey hsymbols (history_period period_q)
                                  (history_interval interval_q))]\<rparr>)
   \<and> (response (screener_handler True sc t_get t_set screener type count_q) = Some (Json sresult)
      \<and> (cache_get sc t_get (screener_cacheKey type (screener_count count_q)) = None
          \<and> t_get' < t_set + stdTTL sc
         \<or> (\<exists>d expiresAt.
                entries sc (screener_cacheKey type (screener_count count_q)) = Some (d, expiresAt)
                \<and> t_get < expiresAt \<and> t_get' < expiresAt))
      \<longrightarrow> screener_handler True (store (screener_handler True sc t_get t_set screener type count_q))
            t_get' t_set' screener' type count_q
          = \<lparr>response = Some (Json sresult),
             store = store (screener_handler True sc t_get t_set screener type count_q),
             trace = [CacheGet (screener_cacheKey type (screener_count count_q))]\<rparr>)"
  using quote_second_call[of qc t_get t_set quoteSummary qorder qsymbols qresp t_get' t_set'
      quoteSummary' qorder']
    history_second_call[of hc t_get t_set cal now chart horder hsymbols period_q interval_q hresp
      t_get' t_set' cal' now' chart' horder']
    screener_second_call[of sc t_get t_set screener type count_q sresult t_get' t_set' screener']
  by blast

theorem second_call_served_from_cache_witness:
  "response (quote_handler True (NodeCache 300) 0 1 quote_sample [0] ''AAPL'')
     = Some (Json [''AAPL'' \<mapsto> Value 4])
   \<and> quote_handler True (store (quote_handler True (NodeCache 300) 0 1 quote_sample [0] ''AAPL''))
       300 301 (quote_rejecting ''Timeout'') [0] ''AAPL''
     = \<lparr>response = Some (Json [''AAPL'' \<mapsto> Value 4]),
        store = store (quote_handler True (NodeCache 300) 0 1 quote_sample [0] ''AAPL''),
        trace = [CacheGet ''quote:AAPL'']\<rparr>
   \<and> response (history_handler True (NodeCache 300) 0 1 sample_calendar 1000 chart_sample [1, 0]
                 ''A,B'' None None)
     = Some (Json [Quotes [1], Null])
   \<and> history_handler True
       (store (history_handler True (NodeCache 300) 0 1 sample_calendar 1000 chart_sample [1, 0]
                 ''A,B'' None None))
       300 301 sample_calendar 2000 (chart_rejecting ''Timeout'') [] ''A,B'' None None
     = \<lparr>response = Some (Json [Quotes [1], Null]),
        store = store (history_handler True (NodeCache 300) 0 1 sample_calendar 1000 chart_sample [1, 0]
                         ''A,B'' None None),
        trace = [CacheGet ''history:A,B:1y:1d'']\<rparr>
   \<and> response (screener_handler True (NodeCache 300) 0 1 (screener_fulfilling [10, 20, 30])
                 ''day_gainers'' (Some ''2''))
     = Some (Json \<lparr>quotes = Some [10, 20], other = ()\<rparr>)
   \<and> screener_handler True
       (store (screener_handler True (NodeCache 300) 0 1 (screener_fulfilling [10, 20, 30])
                 ''day_gainers'' (Some ''2'')))
       300 301 (screener_rejecting ''Timeout'') ''day_gainers'' (Some ''2'')
     = \<lparr>response = Some (Json \<lparr>quotes = Some [10, 20], other = ()\<rparr>),
        store = store (screener_handler True (NodeCache 300) 0 1 (screener_fulfilling [10, 20, 30])
                         ''day_gainers'' (Some ''2'')),
        trace = [CacheGet (screener_cacheKey ''day_gainers'' 2)]\<rparr>"
proof -
  have ttl: "(300::int) < 1 + stdTTL (NodeCache 300 :: 'a cache_store)"
    by (simp add: NodeCache_def)
  have empty: "cache_get (NodeCache 300 :: 'a cache_store) 0 k = None" for k
    by (simp add: cache_get_def NodeCache_def)
  have count: "screener_count (Some ''2'') = 2"
    by (simp add: screener_count_def ToString_def parseInt_def trimStart_def isWhiteSpace_def
        digitValue_def or_default_def)
  have qfirst: "response (quote_handler True (NodeCache 300) 0 1 quote_sample [0] ''AAPL'')
                 = Some (Json [''AAPL'' \<mapsto> Value 4])"
    by (simp add: quote_handler_def quote_symbolList_def quote_cacheKey_def trim_def isWhiteSpace_def
        quote_promises_def enumerate_eq_zip quote_sample_def allSettled_def obj_set_def
        cache_get_def NodeCache_def Let_def eval_nat_numeral)
  have hfirst: "response (history_handler True (NodeCache 300) 0 1 sample_calendar 1000 chart_sample [1, 0]
                 ''A,B'' None None)
     = Some (Json [Quotes [1], Null])"
    by (simp add: history_handler_def history_symbolList_AB history_promises_def enumerate_eq_zip
        chart_sample_def allSettled_def cache_get_def NodeCache_def Let_def)
  have sfirst: "response (screener_handler True (NodeCache 300) 0 1 (screener_fulfilling [10, 20, 30])
                 ''day_gainers'' (Some ''2''))
     = Some (Json \<lparr>quotes = Some [10, 20], other = ()\<rparr>)"
    by (simp add: screener_handler_def validTypes_def count screener_fulfilling_def slice0_def
        cache_get_def NodeCache_def Let_def)
  note main = second_call_served_from_cache[where qc = "NodeCache 300" and hc = "NodeCache 300"
      and sc = "NodeCache 300" and t_get = 0 and t_set = 1 and t_get' = 300 and t_set' = 301
      and quoteSummary = quote_sample and qorder = "[0]" and qsymbols = "''AAPL''"
      and quoteSummary' = "quote_rejecting ''Timeout''" and qorder' = "[0]"
      and qresp = "Json [''AAPL'' \<mapsto> Value 4]"
      and cal = sample_calendar and now = 1000 and chart = chart_sample and horder = "[1, 0]"
      and hsymbols = "''A,B''" and period_q = None and interval_q = None
      and cal' = sample_calendar and now' = 2000 and chart' = "chart_rejecting ''Timeout''"
      and horder' = "[]" and hresp = "Json [Quotes [1], Null]"
      and screener = "screener_fulfilling [10, 20, 30]" and type = "''day_gainers''"
      and count_q = "Some ''2''" and screener' = "screener_rejecting ''Timeout''"
      and sresult = "\<lparr>quotes = Some [10, 20], other = ()\<rparr>"]
  have qwin: "response (quote_handler True (NodeCache 300) 0 1 quote_sample [0] ''AAPL'')
                = Some (Json [''AAPL'' \<mapsto> Value 4])
    \<and> (cache_get (NodeCache 300 :: nat quote_data cache_store) 0 (quote_cacheKey ''AAPL'') = None
         \<and> (300::int) < 1 + stdTTL (NodeCache 300 :: nat quote_data cache_store)
       \<or> (\<exists>d expiresAt. entries (NodeCache 300 :: nat quote_data cache_store) (quote_cacheKey ''AAPL'')
                            = Some (d, expiresAt)
              \<and> 0 < expiresAt \<and> 300 < expiresAt))"
    using qfirst empty ttl by blast
  have hwin: "response (history_handler True (NodeCache 300) 0 1 sample_calendar 1000 chart_sample [1, 0]
                   ''A,B'' None None) = Some (Json [Quotes [1], Null])
      \<and> (cache_get (NodeCache 300 :: nat list history_slot list cache_store) 0
            (history_cacheKey ''A,B'' (history_period None) (history_interval None)) = None
          \<and> (300::int) < 1 + stdTTL (NodeCache 300 :: nat list history_slot list cache_store)
         \<or> (\<exists>d expiresAt.
                entries (NodeCache 300 :: nat list history_slot list cache_store)
                  (history_cacheKey ''A,B'' (history_period None) (history_interval None))
                  = Some (d, expiresAt)
                \<and> 0 < expiresAt \<and> 300 < expiresAt))"
    using hfirst empty ttl by blast
  have swin: "response (screener_handler True (NodeCache 300) 0 1 (screener_fulfilling [10, 20, 30])
                 ''day_gainers'' (Some ''2''))
               = Some (Json \<lparr>quotes = Some [10, 20], other = ()\<rparr>)
      \<and> (cache_get (NodeCache 300 :: (nat, unit) screener_result cache_store) 0
            (screener_cacheKey ''day_gainers'' (screener_count (Some ''2''))) = None
          \<and> (300::int) < 1 + stdTTL (NodeCache 300 :: (nat, unit) screener_result cache_store)
         \<or> (\<exists>d expiresAt.
                entries (NodeCache 300 :: (nat, unit) screener_result cache_store)
                  (screener_cacheKey ''day_gainers'' (screener_count (Some ''2''))) = Some (d, expiresAt)
                \<and> 0 < expiresAt \<and> 300 < expiresAt))"
    using sfirst empty ttl by blast
  have q2: "quote_handler True (store (quote_handler True (NodeCache 300) 0 1 quote_sample [0] ''AAPL''))
       300 301 (quote_rejecting ''Timeout'') [0] ''AAPL''
     = \<lparr>response = Some (Json [''AAPL'' \<mapsto> Value 4]),
        store = store (quote_handler True (NodeCache 300) 0 1 quote_sample [0] ''AAPL''),
        trace = [CacheGet ''quote:AAPL'']\<rparr>"
    using main[THEN conjunct1, THEN mp, OF qwin] by (simp add: quote_cacheKey_def)
  have h2: "history_handler True
       (store (history_handler True (NodeCache 300) 0 1 sample_calendar 1000 chart_sample [1, 0]
                 ''A,B'' None None))
       300 301 sample_calendar 2000 (chart_rejecting ''Timeout'') [] ''A,B'' None None
     = \<lparr>response = Some (Json [Quotes [1], Null]),
        store = store (history_handler True (NodeCache 300) 0 1 sample_calendar 1000 chart_sample [1, 0]
                         ''A,B'' None None),
        trace = [CacheGet ''history:A,B:1y:1d'']\<rparr>"
    using main[THEN conjunct2, THEN conjunct1, THEN mp, OF hwin]
    by (simp add: history_cacheKey_def history_period_def history_interval_def)
  have s2: "screener_handler True
       (store (screener_handler True (NodeCache 300) 0 1 (screener_fulfilling [10, 20, 30])
                 ''day_gainers'' (Some ''2'')))
       300 301 (screener_rejecting ''Timeout'') ''day_gainers'' (Some ''2'')
     = \<lparr>response = Some (Json \<lparr>quotes = Some [10, 20], other = ()\<rparr>),
        store = store (screener_handler True (NodeCache 300) 0 1 (screener_fulfilling [10, 20, 30])
                         ''day_gainers'' (Some ''2'')),
        trace = [CacheGet (screener_cacheKey ''day_gainers'' 2)]\<rparr>"
    using main[THEN conjunct2, THEN conjunct2, THEN mp, OF swin] by (simp add: count)
  from qfirst q2 hfirst h2 sfirst s2 show ?thesis by blast
qed

text \<open>
  C5 as stated fails when the two calls have one key list but not one symbols segment:
  after a request for \<^verbatim>\<open>AAPL,MSFT\<close>, a request for \<^verbatim>\<open>AAPL, MSFT\<close> inside the TTL
  window has the same key list and another cache key, misses the entry and calls the
  provider for both symbols. It also fails for a screener call answered with status
  500: nothing is stored, and the repeated call calls the provider again.
\<close>

theorem same_key_list_second_call_misses:
  "quote_symbolList ''AAPL, MSFT'' = quote_symbolList ''AAPL,MSFT''
   \<and> quote_cacheKey ''AAPL, MSFT'' \<noteq> quote_cacheKey ''AAPL,MSFT''
   \<and> trace (quote_handler True
               (store (quote_handler True (NodeCache 300) 0 1 quote_sample [0, 1] ''AAPL,MSFT''))
               2 3 quote_sample [0, 1] ''AAPL, MSFT'')
       = [CacheGet ''quote:AAPL, MSFT'', ProviderCall ''AAPL'', ProviderCall ''MSFT'',
          CacheSet ''quote:AAPL, MSFT'']
   \<and> response (screener_handler True (NodeCache 300) 0 1 (screener_rejecting ''Timeout'')
                 ''day_gainers'' None)
     = Some (ErrorStatus 500 ''Timeout'')
   \<and> trace (screener_handler True
               (store (screener_handler True (NodeCache 300) 0 1 (screener_rejecting ''Timeout'')
                         ''day_gainers'' None))
               2 3 (screener_fulfilling [10, 20, 30]) ''day_gainers'' None)
       = [CacheGet (screener_cacheKey ''day_gainers'' 25), ProviderCall ''day_gainers'',
          CacheSet (screener_cacheKey ''day_gainers'' 25)]"
proof -
  have count: "screener_count None = 25"
    by (simp add: screener_count_def parseInt_undefined or_default_def)
  have quote: "quote_symbolList ''AAPL, MSFT'' = quote_symbolList ''AAPL,MSFT''
   \<and> quote_cacheKey ''AAPL, MSFT'' \<noteq> quote_cacheKey ''AAPL,MSFT''
   \<and> trace (quote_handler True
               (store (quote_handler True (NodeCache 300) 0 1 quote_sample [0, 1] ''AAPL,MSFT''))
               2 3 quote_sample [0, 1] ''AAPL, MSFT'')
       = [CacheGet ''quote:AAPL, MSFT'', ProviderCall ''AAPL'', ProviderCall ''MSFT'',
          CacheSet ''quote:AAPL, MSFT'']"
    by (simp add: quote_handler_def quote_symbolList_def quote_cacheKey_def trim_def isWhiteSpace_def
        quote_promises_def enumerate_eq_zip quote_sample_def allSettled_def obj_set_def
        cache_get_def cache_set_def cache_set_ttl_def NodeCache_def Let_def)
  have screener: "response (screener_handler True (NodeCache 300) 0 1 (screener_rejecting ''Timeout'')
                 ''day_gainers'' None)
     = Some (ErrorStatus 500 ''Timeout'')
   \<and> trace (screener_handler True
               (store (screener_handler True (NodeCache 300) 0 1 (screener_rejecting ''Timeout'')
                         ''day_gainers'' None))
               2 3 (screener_fulfilling [10, 20, 30]) ''day_gainers'' None)
       = [CacheGet (screener_cacheKey ''day_gainers'' 25), ProviderCall ''day_gainers'',
          CacheSet (screener_cacheKey ''day_gainers'' 25)]"
    by (simp add: screener_handler_def validTypes_def count screener_rejecting_def
        screener_fulfilling_def cache_get_def NodeCache_def Let_def)
  from quote screener show ?thesis by simp
qed

section \<open>Caching disabled\<close>

lemma quote_handler_disabled:
  "quote_handler False c t_get t_set quoteSummary order symbols =
     \<lparr>response = map_option (\<lambda>results. Json (quote_forEach (zip (quote_symbolList symbols) results) Map.empty))
                   (allSettled (quote_promises quoteSummary (quote_symbolList symbols)) order),
      store = c,
      trace = map (\<lambda>symbol. ProviderCall (trim symbol)) (quote_symbolList symbols)\<rparr>"
  by (simp add: quote_handler_def Let_def split: option.splits)

lemma history_handler_disabled:
  "history_handler False c t_get t_set cal now chart order symbols period_q interval_q =
     \<lparr>response = map_option (\<lambda>results. Json (history_forEach results []))
                   (allSettled (history_promises chart
                      (history_options cal now (history_period period_q) (history_interval interval_q))
                      (history_symbolList symbols)) order),
      store = c,
      trace = map ProviderCall (history_symbolList symbols)\<rparr>"
  by (simp add: history_handler_def Let_def split: option.splits)

lemma screener_handler_disabled_run:
  "screener_handler False c t_get t_set screener type count_q =
     (if type \<in> set validTypes
      then \<lparr>response =
               (case screener type of
                  None \<Rightarrow> None
                | Some (Rejected message) \<Rightarrow> Some (ErrorStatus 500 message)
                | Some (Fulfilled result) \<Rightarrow>
                    Some (Json (result\<lparr>quotes :=
                      Some (slice0 (case quotes result of None \<Rightarrow> [] | Some qs \<Rightarrow> qs)
                              (min (screener_count count_q) 100))\<rparr>))),
            store = c,
            trace = [ProviderCall type]\<rparr>
      else \<lparr>response = Some (ErrorStatus 400
               (''Invalid screener type: '' @ type @ ''. Valid types are: '' @ join_comma validTypes)),
            store = c, trace = []\<rparr>)"
  by (simp add: screener_handler_def Let_def split: option.splits settled.splits)

lemma quote_handler_empty_store:
  "response (quote_handler True (NodeCache ttl) t_get t_set quoteSummary order symbols)
   = response (quote_handler False c t_get' t_set' quoteSummary order symbols)"
  by (simp add: quote_handler_def Let_def cache_get_def NodeCache_def split: option.splits)

lemma history_handler_empty_store:
  "response (history_handler True (NodeCache ttl) t_get t_set cal now chart order symbols period_q interval_q)
   = response (history_handler False c t_get' t_set' cal now chart order symbols period_q interval_q)"
  by (simp add: history_handler_def Let_def cache_get_def NodeCache_def split: option.splits)

text \<open>
  C8. With caching disabled every modelled handler is a pass-through to its fan-out.
  Its response is the aggregate of the join over the provider calls (no response while
  the join has not resumed), the response an enabled handler gives on a miss in an
  empty store; the screener answers with the sliced result of its one provider call, or
  with status 500 when that call is rejected. The handler leaves the store as it found
  it, and its trace holds no cache lookup and no cache write but one provider call per
  key, so a second identical call, run on the store the first one left, fans out in
  full again. Nothing in the run depends on the contents of the store or on the clock
  of the cache.
\<close>

theorem cache_disabled_pass_through:
  "quote_handler False c t_get t_set quoteSummary order symbols
     = \<lparr>response =
          (case allSettled (quote_promises quoteSummary (quote_symbolList symbols)) order of
             None \<Rightarrow> None
           | Some results \<Rightarrow>
               Some (Json (quote_forEach (zip (quote_symbolList symbols) results) Map.empty))),
        store = c,
        trace = map (\<lambda>symbol. ProviderCall (trim symbol)) (quote_symbolList symbols)\<rparr>
   \<and> quote_symbolList symbols \<noteq> []
   \<and> response (quote_handler False c t_get t_set quoteSummary order symbols)
       = response (quote_handler True (NodeCache ttl) t_get' t_set' quoteSummary order symbols)
   \<and> trace (quote_handler False (store (quote_handler False c t_get t_set quoteSummary order symbols))
              t_get2 t_set2 quoteSummary2 order2 symbols)
       = map (\<lambda>symbol. ProviderCall (trim symbol)) (quote_symbolList symbols)
   \<and> history_handler False hc t_get t_set cal now chart order symbols period_q interval_q
     = \<lparr>response =
          (case allSettled
                  (history_promises chart
                     (history_options cal now (history_period period_q) (history_interval interval_q))
                     (history_symbolList symbols)) order of
             None \<Rightarrow> None
           | Some results \<Rightarrow> Some (Json (map history_entry results))),
        store = hc,
        trace = map ProviderCall (history_symbolList symbols)\<rparr>
   \<and> response (history_handler False hc t_get t_set cal now chart order symbols period_q interval_q)
       = response (history_handler True (NodeCache ttl) t_get' t_set' cal now chart order symbols
                     period_q interval_q)
   \<and> screener_handler False sc t_get t_set screener type count_q
     = (if type \<in> set validTypes
        then \<lparr>response =
                 (case screener type of
                    None \<Rightarrow> None
                  | Some (Rejected message) \<Rightarrow> Some (ErrorStatus 500 message)
                  | Some (Fulfilled result) \<Rightarrow>
                      Some (Json (result\<lparr>quotes :=
                        Some (slice0 (case quotes result of None \<Rightarrow> [] | Some qs \<Rightarrow> qs)
                                (min (screener_count count_q) 100))\<rparr>))),
              store = sc,
              trace = [ProviderCall type]\<rparr>
        else \<lparr>response = Some (ErrorStatus 400
                 (''Invalid screener type: '' @ type @ ''. Valid types are: '' @ join_comma validTypes)),
              store = sc, trace = []\<rparr>)
   \<and> quote_handler False (NodeCache 300) 0 1 quote_sample [2, 0, 1] ''AAPL,GOOGL,BADSYM''
     = \<lparr>response = Some (Json [''AAPL'' \<mapsto> Value 4, ''GOOGL'' \<mapsto> Value 5,
                                 ''BADSYM'' \<mapsto> Error ''Not found'']),
        store = NodeCache 300,
        trace = [ProviderCall ''AAPL'', ProviderCall ''GOOGL'', ProviderCall ''BADSYM'']\<rparr>
   \<and> history_handler False (NodeCache 300) 0 1 sample_calendar 1000 chart_sample [1, 0] ''A,B'' None None
     = \<lparr>response = Some (Json [Quotes [1], Null]),
        store = NodeCache 300,
        trace = [ProviderCall ''A'', ProviderCall ''B'']\<rparr>"
proof -
  have q: "quote_handler False (NodeCache 300) 0 1 quote_sample [2, 0, 1] ''AAPL,GOOGL,BADSYM''
     = \<lparr>response = Some (Json [''AAPL'' \<mapsto> Value 4, ''GOOGL'' \<mapsto> Value 5,
                                 ''BADSYM'' \<mapsto> Error ''Not found'']),
        store = NodeCache 300,
        trace = [ProviderCall ''AAPL'', ProviderCall ''GOOGL'', ProviderCall ''BADSYM'']\<rparr>"
    by (simp add: quote_handler_def quote_symbolList_sample quote_promises_def enumerate_eq_zip
        quote_sample_def allSettled_def obj_set_def trim_def isWhiteSpace_def Let_def eval_nat_numeral)
  have h: "history_handler False (NodeCache 300) 0 1 sample_calendar 1000 chart_sample [1, 0] ''A,B'' None None
     = \<lparr>response = Some (Json [Quotes [1], Null]),
        store = NodeCache 300,
        trace = [ProviderCall ''A'', ProviderCall ''B'']\<rparr>"
    by (simp add: history_handler_def history_symbolList_AB history_promises_def enumerate_eq_zip
        chart_sample_def allSettled_def Let_def)
  have qrun: "quote_handler False c t_get t_set quoteSummary order symbols
     = \<lparr>response =
          (case allSettled (quote_promises quoteSummary (quote_symbolList symbols)) order of
             None \<Rightarrow> None
           | Some results \<Rightarrow>
               Some (Json (quote_forEach (zip (quote_symbolList symbols) results) Map.empty))),
        store = c,
        trace = map (\<lambda>symbol. ProviderCall (trim symbol)) (quote_symbolList symbols)\<rparr>"
    by (simp add: quote_handler_disabled split: option.splits)
  have hrun: "history_handler False hc t_get t_set cal now chart order symbols period_q interval_q
     = \<lparr>response =
          (case allSettled
                  (history_promises chart
                     (history_options cal now (history_period period_q) (history_interval interval_q))
                     (history_symbolList symbols)) order of
             None \<Rightarrow> None
           | Some results \<Rightarrow> Some (Json (map history_entry results))),
        store = hc,
        trace = map ProviderCall (history_symbolList symbols)\<rparr>"
    by (simp add: history_handler_disabled history_forEach_eq split: option.splits)
  have again: "trace (quote_handler False (store (quote_handler False c t_get t_set quoteSummary order symbols))
              t_get2 t_set2 quoteSummary2 order2 symbols)
       = map (\<lambda>symbol. ProviderCall (trim symbol)) (quote_symbolList symbols)"
    by (simp add: quote_handler_disabled)
  from qrun quote_symbolList_nonempty[of symbols]
    quote_handler_empty_store[of ttl t_get' t_set' quoteSummary order symbols c t_get t_set, symmetric]
    again hrun
    history_handler_empty_store[of ttl t_get' t_set' cal now chart order symbols period_q interval_q hc t_get t_set, symmetric]
    screener_handler_disabled_run[of sc t_get t_set screener type count_q] q h
  show ?thesis by blast
qed

section \<open>The cache store and its default TTL\<close>

text \<open>
  C6. A lookup never returns an expired entry: at a time \<open>now\<close> with
  \<open>now \<ge> expiresAt\<close> the entry is reported absent, and a value that is returned has an
  expiry after \<open>now\<close>. A \<^verbatim>\<open>set\<close> stores the value with expiry \<open>now + ttlSeconds\<close>,
  the default TTL of the store when none is given. With no \<^verbatim>\<open>CACHE_TTL\<close> in the
  environment the default TTL of the process-wide store is 300 seconds.
\<close>

theorem cache_store_never_stale:
  "(entries (c :: 'a cache_store) k = Some (v, expiresAt) \<and> now \<ge> expiresAt \<longrightarrow> cache_get c now k = None)
   \<and> (cache_get c now k = Some v \<longrightarrow> (\<exists>expiresAt. entries c k = Some (v, expiresAt) \<and> now < expiresAt))
   \<and> entries (cache_set_ttl c now k v ttlSeconds) k = Some (v, now + ttlSeconds)
   \<and> entries (cache_set c now k v) k = Some (v, now + stdTTL c)
   \<and> cache_get (cache_set c now k v) t k = (if t < now + stdTTL c then Some v else None)
   \<and> CACHE_TTL None = 300
   \<and> stdTTL (cache None :: 'a cache_store) = 300"
proof -
  have ttl: "CACHE_TTL None = 300"
    by (simp add: CACHE_TTL_def parseInt_undefined or_default_def)
  have fresh: "cache_get c now k = Some v \<longrightarrow> (\<exists>expiresAt. entries c k = Some (v, expiresAt) \<and> now < expiresAt)"
    by (auto simp: cache_get_def split: option.splits if_splits)
  have stale: "entries c k = Some (v, expiresAt) \<and> now \<ge> expiresAt \<longrightarrow> cache_get c now k = None"
    by (simp add: cache_get_def)
  have stored: "entries (cache_set_ttl c now k v ttlSeconds) k = Some (v, now + ttlSeconds)"
    and stored_default: "entries (cache_set c now k v) k = Some (v, now + stdTTL c)"
    by (simp_all add: cache_set_def cache_set_ttl_def)
  have process_wide: "stdTTL (cache None :: 'a cache_store) = 300"
    by (simp add: ttl cache_def NodeCache_def)
  from stale fresh stored stored_default cache_get_cache_set[of c now k v t] ttl process_wide
  show ?thesis by blast
qed

theorem cache_store_never_stale_witness:
  "cache_get (cache_set (cache None) 0 ''quote:AAPL'' (7::nat)) 299 ''quote:AAPL'' = Some 7
   \<and> cache_get (cache_set (cache None) 0 ''quote:AAPL'' (7::nat)) 300 ''quote:AAPL'' = None"
proof -
  let ?c = "cache_set (cache None) 0 ''quote:AAPL'' (7::nat)"
  note at_set = cache_store_never_stale[where c = "cache None" and k = "''quote:AAPL''" and v = "7::nat"
      and now = 0 and t = 299 and expiresAt = 0 and ttlSeconds = 0]
  have entry: "entries ?c ''quote:AAPL'' = Some (7, 300) \<and> (300::int) \<ge> 300"
    using at_set by simp
  from cache_store_never_stale[where c = ?c and k = "''quote:AAPL''" and v = "7::nat"
      and now = 300 and expiresAt = 300, THEN conjunct1, rule_format, OF entry]
  have stale: "cache_get ?c 300 ''quote:AAPL'' = None" .
  have fresh: "cache_get ?c 299 ''quote:AAPL'' = Some 7"
    using at_set by simp
  from fresh stale show ?thesis by simp
qed

section \<open>Cache keys\<close>













section \<open>The screener route\<close>

lemma screener_invalid_type:
  assumes "type \<notin> set validTypes"
  shows "screener_handler enabled c t_get t_set screener type count_q
         = \<lparr>response = Some (ErrorStatus 400
              (''Invalid screener type: '' @ type @ ''. Valid types are: '' @ join_comma validTypes)),
            store = c, trace = []\<rparr>"
  using assms by (simp add: screener_handler_def)

lemma screener_count_absent: "screener_count None = 25"
  by (simp add: screener_count_def parseInt_undefined or_default_def)

lemma screener_count_not_numeric: "parseInt s = None \<Longrightarrow> screener_count (Some s) = 25"
  by (simp add: screener_count_def ToString_def or_default_def)

lemma length_slice0: "0 \<le> e \<Longrightarrow> int (length (slice0 xs e)) \<le> e"
  by (simp add: slice0_def)

lemma slice0_prefix: "0 \<le> e \<Longrightarrow> slice0 xs e = take (nat e) xs"
  by (simp add: slice0_def)

text \<open>
  A type outside the enumeration is answered with status 400 before the count is
  read: no provider call, no access to the cache, the store untouched.
\<close>

theorem screener_rejects_invalid_type:
  "type \<notin> set validTypes \<longrightarrow>
     response (screener_handler enabled c t_get t_set screener type count_q)
       = Some (ErrorStatus 400
           (''Invalid screener type: '' @ type @ ''. Valid types are: '' @ join_comma validTypes))
     \<and> store (screener_handler enabled c t_get t_set screener type count_q) = c
     \<and> trace (screener_handler enabled c t_get t_set screener type count_q) = []"
  by (simp add: screener_invalid_type)

theorem screener_rejects_invalid_type_witness:
  "response (screener_handler True (NodeCache 300) 0 1 (screener_fulfilling [10, 20, 30])
              ''most_shorted'' None)
     = Some (ErrorStatus 400
         ''Invalid screener type: most_shorted. Valid types are: day_gainers, day_losers, most_actives'')
   \<and> trace (screener_handler True (NodeCache 300) 0 1 (screener_fulfilling [10, 20, 30])
              ''most_shorted'' None) = []"
proof -
  have invalid: "''most_shorted'' \<notin> set validTypes"
    by (simp add: validTypes_def)
  from screener_rejects_invalid_type[rule_format, OF invalid,
      of True "NodeCache 300" 0 1 "screener_fulfilling [10, 20, 30]" None]
  show ?thesis by (simp add: validTypes_def)
qed

text \<open>
  The count defaults to 25 when the query parameter is absent or has no leading
  number. For a valid type and a positive count, a fan-out whose provider call is
  fulfilled answers with the first \<^verbatim>\<open>min(count, 100)\<close> quotes of the provider's
  result: at most \<^verbatim>\<open>min(count, 100)\<close> of them.
\<close>

theorem screener_positive_count_bound:
  assumes valid: "type \<in> set validTypes"
    and miss: "enabled \<longrightarrow> cache_get c t_get (screener_cacheKey type (screener_count count_q)) = None"
    and fulfilled: "screener type = Some (Fulfilled result)"
    and positive: "0 < screener_count count_q"
  shows "screener_count None = 25
       \<and> (\<forall>s. parseInt s = None \<longrightarrow> screener_count (Some s) = 25)
       \<and> (\<exists>qs. response (screener_handler enabled c t_get t_set screener type count_q)
                    = Some (Json (result\<lparr>quotes := Some qs\<rparr>))
              \<and> qs = take (nat (min (screener_count count_q) 100))
                          (case quotes result of None \<Rightarrow> [] | Some xs \<Rightarrow> xs)
              \<and> int (length qs) \<le> min (screener_count count_q) 100)"
proof -
  let ?e = "min (screener_count count_q) 100"
  let ?xs = "case quotes result of None \<Rightarrow> [] | Some xs \<Rightarrow> xs"
  have e: "0 \<le> ?e" using positive by simp
  have "response (screener_handler enabled c t_get t_set screener type count_q)
        = Some (Json (result\<lparr>quotes := Some (slice0 ?xs ?e)\<rparr>))"
    using valid miss fulfilled by (simp add: screener_handler_def Let_def)
  moreover have "slice0 ?xs ?e = take (nat ?e) ?xs"
    using e by (rule slice0_prefix)
  moreover have "int (length (slice0 ?xs ?e)) \<le> ?e"
    using e by (rule length_slice0)
  ultimately show ?thesis
    using screener_count_absent screener_count_not_numeric by auto
qed

theorem screener_positive_count_bound_witness:
  "response (screener_handler False (NodeCache 300) 0 1 (screener_fulfilling [10, 20, 30])
              ''day_gainers'' (Some ''2''))
     = Some (Json \<lparr>quotes = Some [10, 20], other = ()\<rparr>)
   \<and> screener_count (Some ''2'') = 2"
proof -
  have valid: "''day_gainers'' \<in> set validTypes"
    by (simp add: validTypes_def)
  have count: "screener_count (Some ''2'') = 2"
    by (simp add: screener_count_def ToString_def parseInt_def trimStart_def isWhiteSpace_def
        digitValue_def or_default_def)
  have miss: "False \<longrightarrow> cache_get (NodeCache 300) 0
                (screener_cacheKey ''day_gainers'' (screener_count (Some ''2'')))
              = (None :: (nat, unit) screener_result option)"
    by simp
  have fulfilled: "screener_fulfilling [10, 20, 30] ''day_gainers''
                   = Some (Fulfilled \<lparr>quotes = Some [10, 20, 30], other = ()\<rparr>)"
    by (simp add: screener_fulfilling_def)
  have positive: "0 < screener_count (Some ''2'')"
    by (simp add: count)
  from screener_positive_count_bound[where screener = "screener_fulfilling [10, 20, 30]" and t_set = 1,
      OF valid miss fulfilled positive] count
  show ?thesis by (auto simp: eval_nat_numeral)
qed

text \<open>
  C9 at a negative count: \<^verbatim>\<open>count=-1\<close> is parsed to \<open>-1\<close>, which is truthy, so the
  default is not substituted; \<^verbatim>\<open>Math.min(-1, 100)\<close> is \<open>-1\<close> and \<^verbatim>\<open>slice(0, -1)\<close>
  drops the last quote only. Of three quotes two are returned, more than
  \<^verbatim>\<open>min(count, 100)\<close>.
\<close>

theorem screener_negative_count_keeps_quotes:
  "screener_count (Some ''-1'') = - 1
   \<and> response (screener_handler False (NodeCache 300) 0 1 (screener_fulfilling [10, 20, 30])
                 ''day_gainers'' (Some ''-1''))
     = Some (Json \<lparr>quotes = Some [10, 20], other = ()\<rparr>)
   \<and> \<not> int (length [10::nat, 20]) \<le> min (screener_count (Some ''-1'')) 100"
proof -
  have count: "screener_count (Some ''-1'') = - 1"
    by (simp add: screener_count_def ToString_def parseInt_def trimStart_def isWhiteSpace_def
        digitValue_def or_default_def)
  have "response (screener_handler False (NodeCache 300) 0 1 (screener_fulfilling [10, 20, 30])
                 ''day_gainers'' (Some ''-1''))
     = Some (Json \<lparr>quotes = Some [10, 20], other = ()\<rparr>)"
    by (simp add: screener_handler_def validTypes_def count screener_fulfilling_def slice0_def Let_def)
  with count show ?thesis by simp
qed

end
